theory Spec2Isabelle
  imports Main
begin

section \<open>Calendar dates\<close>

text \<open>
  The holiday classes of \<^verbatim>\<open>hdays.py\<close> compute with \<^verbatim>\<open>datetime.date\<close>.
  A date is its three fields; the constructor checks them and raises
  \<^verbatim>\<open>ValueError\<close> outside the proleptic Gregorian range, which the model
  returns as \<open>None\<close>.  The ordinal functions follow the interpreter's own
  \<^verbatim>\<open>datetime.py\<close> (\<^verbatim>\<open>_ymd2ord\<close>, \<^verbatim>\<open>_ord2ymd\<close>), with the leading
  underscores dropped from the names.
\<close>

record date =
  year :: int
  month :: int
  day :: int

definition MINYEAR :: int where
  "MINYEAR = 1"

definition MAXYEAR :: int where
  "MAXYEAR = 9999"

definition MAXORDINAL :: int where
  "MAXORDINAL = 3652059"

definition DAYS_IN_MONTH :: "int list" where
  "DAYS_IN_MONTH = [-1, 31, 28, 31, 30, 31, 30, 31, 31, 30, 31, 30, 31]"

definition DAYS_BEFORE_MONTH :: "int list" where
  "DAYS_BEFORE_MONTH = [-1, 0, 31, 59, 90, 120, 151, 181, 212, 243, 273, 304, 334]"

definition is_leap :: "int \<Rightarrow> bool" where
  "is_leap y = (y mod 4 = 0 \<and> (y mod 100 \<noteq> 0 \<or> y mod 400 = 0))"

definition days_before_year :: "int \<Rightarrow> int" where
  "days_before_year y0 = (let y = y0 - 1 in y * 365 + y div 4 - y div 100 + y div 400)"

definition days_in_month :: "int \<Rightarrow> int \<Rightarrow> int" where
  "days_in_month y m = (if m = 2 \<and> is_leap y then 29 else DAYS_IN_MONTH ! nat m)"

definition days_before_month :: "int \<Rightarrow> int \<Rightarrow> int" where
  "days_before_month y m =
     DAYS_BEFORE_MONTH ! nat m + (if m > 2 \<and> is_leap y then 1 else 0)"

definition ymd2ord :: "int \<Rightarrow> int \<Rightarrow> int \<Rightarrow> int" where
  "ymd2ord y m d = days_before_year y + days_before_month y m + d"

definition DI400Y :: int where
  "DI400Y = 146097"

definition DI100Y :: int where
  "DI100Y = 36524"

definition DI4Y :: int where
  "DI4Y = 1461"

definition ord2ymd :: "int \<Rightarrow> int \<times> int \<times> int" where
  "ord2ymd n0 =
     (let n = n0 - 1;
          n400 = n div DI400Y; n = n mod DI400Y;
          y = n400 * 400 + 1;
          n100 = n div DI100Y; n = n mod DI100Y;
          n4 = n div DI4Y; n = n mod DI4Y;
          n1 = n div 365; n = n mod 365;
          y = y + (n100 * 100 + n4 * 4 + n1)
      in if n1 = 4 \<or> n100 = 4 then (y - 1, 12, 31)
         else
           let leapyear = (n1 = 3 \<and> (n4 \<noteq> 24 \<or> n100 = 3));
               m = (n + 50) div 32;
               preceding = DAYS_BEFORE_MONTH ! nat m + (if m > 2 \<and> leapyear then 1 else 0);
               (m, preceding) =
                  (if preceding > n
                   then (m - 1,
                         preceding - (DAYS_IN_MONTH ! nat (m - 1)
                                      + (if m - 1 = 2 \<and> leapyear then 1 else 0)))
                   else (m, preceding));
               n = n - preceding
           in (y, m, n + 1))"

text \<open>\<^verbatim>\<open>date(year, month, day)\<close>: the checks of \<^verbatim>\<open>_check_date_fields\<close>.\<close>

definition date_new :: "int \<Rightarrow> int \<Rightarrow> int \<Rightarrow> date option" where
  "date_new y m d =
     (if \<not> (MINYEAR \<le> y \<and> y \<le> MAXYEAR) then None
      else if \<not> (1 \<le> m \<and> m \<le> 12) then None
      else if \<not> (1 \<le> d \<and> d \<le> days_in_month y m) then None
      else Some \<lparr>year = y, month = m, day = d\<rparr>)"

definition toordinal :: "date \<Rightarrow> int" where
  "toordinal dt = ymd2ord (year dt) (month dt) (day dt)"

definition fromordinal :: "int \<Rightarrow> date option" where
  "fromordinal n = (case ord2ymd n of (y, m, d) \<Rightarrow> date_new y m d)"

text \<open>\<^verbatim>\<open>Monday == 0 ... Sunday == 6\<close>.\<close>

definition weekday :: "date \<Rightarrow> int" where
  "weekday dt = (toordinal dt + 6) mod 7"

text \<open>
  \<^verbatim>\<open>dt + timedelta(days=n)\<close>; \<^verbatim>\<open>dt - timedelta(days=n)\<close> is
  \<open>date_add dt (- n)\<close>.  A \<^verbatim>\<open>relativedelta(days=n)\<close> that carries nothing but
  days is added to a date in the same way.  \<open>None\<close> is the \<^verbatim>\<open>OverflowError\<close>.
\<close>

definition date_add :: "date \<Rightarrow> int \<Rightarrow> date option" where
  "date_add dt n =
     (let ord = toordinal dt + n
      in if 0 < ord \<and> ord \<le> MAXORDINAL then fromordinal ord else None)"


section \<open>The holiday mapping and the statements of a populate method\<close>

text \<open>
  A holiday class is a dictionary from dates to names with an \<^verbatim>\<open>observed\<close> flag.
  The state a call of \<^verbatim>\<open>_populate\<close> acts on is that instance together with
  the messages handed to \<^verbatim>\<open>warnings.warn\<close>.  The field \<open>assigned\<close> is a history
  variable: the assignments \<^verbatim>\<open>self[key] = name\<close> in the order they were executed.
\<close>

record holidays =
  observed :: bool
  items :: "date \<rightharpoonup> string"
  assigned :: "(date \<times> string) list"
  warned :: "string list"

definition HolidayBase_init :: "bool \<Rightarrow> holidays" where
  "HolidayBase_init obs = \<lparr>observed = obs, items = Map.empty, assigned = [], warned = []\<rparr>"

text \<open>A statement either raises (\<open>None\<close>) or returns the updated state.\<close>

type_synonym stmt = "holidays \<Rightarrow> holidays option"

text \<open>
  Modelled from the spec: \<^verbatim>\<open>HolidayBase.__setitem__\<close> belongs to the
  \<^verbatim>\<open>holidays\<close> package and is not part of this repository.  The specification
  fixes its merge policy: when two holidays coincide on a date, the one assigned
  later wins.
\<close>

definition setitem :: "date \<Rightarrow> string \<Rightarrow> stmt" where
  "setitem key name s =
     Some (s\<lparr>items := (items s)(key \<mapsto> name), assigned := assigned s @ [(key, name)]\<rparr>)"

text \<open>\<^verbatim>\<open>warnings.warn(msg, Warning)\<close>: the call is recorded.\<close>

definition warn :: "string \<Rightarrow> stmt" where
  "warn msg s = Some (s\<lparr>warned := warned s @ [msg]\<rparr>)"

definition pass :: stmt where
  "pass s = Some s"

text \<open>
  \<open>compute x f\<close> evaluates an expression that may raise and continues with its value.
\<close>

definition compute :: "'a option \<Rightarrow> ('a \<Rightarrow> stmt) \<Rightarrow> stmt" where
  "compute x f s = (case x of None \<Rightarrow> None | Some v \<Rightarrow> f v s)"

text \<open>Statements in sequence; the first exception ends the run.\<close>

fun run :: "stmt list \<Rightarrow> stmt" where
  "run [] s = Some s"
| "run (f # fs) s = (case f s of None \<Rightarrow> None | Some s' \<Rightarrow> run fs s')"

text \<open>\<^verbatim>\<open>range(lo, hi, 1)\<close>.\<close>

definition py_range :: "int \<Rightarrow> int \<Rightarrow> int list" where
  "py_range lo hi = [lo..hi - 1]"

text \<open>\<^verbatim>\<open>for offset in range(-1, 2, 1): body\<close>.\<close>

definition for_offset :: "(int \<Rightarrow> stmt) \<Rightarrow> stmt" where
  "for_offset body = run (map body (py_range (- 1) 2))"

text \<open>\<^verbatim>\<open>self[date(y, m, d)] = name\<close>.\<close>

definition setitem_date :: "int \<Rightarrow> int \<Rightarrow> int \<Rightarrow> string \<Rightarrow> stmt" where
  "setitem_date y m d name = compute (date_new y m d) (\<lambda>key. setitem key name)"

section \<open>The external collaborators\<close>

text \<open>
  \<^verbatim>\<open>dateutil.easter.easter\<close>, \<^verbatim>\<open>convertdate.islamic\<close> and
  \<^verbatim>\<open>lunarcalendar\<close> are libraries outside the repository.  Every populate
  method takes them as a parameter; each may raise on an input outside its range.
  \<open>Lunar2Solar c y m d\<close> stands for
  \<^verbatim>\<open>Converter.Lunar2Solar(Lunar(y, m, d)).to_date()\<close>.
\<close>

datatype easter_method = EASTER_JULIAN | EASTER_ORTHODOX | EASTER_WESTERN

record collab =
  easter :: "int \<Rightarrow> easter_method \<Rightarrow> date option"
  from_gregorian :: "int \<Rightarrow> int \<Rightarrow> int \<Rightarrow> (int \<times> int \<times> int) option"
  to_gregorian :: "int \<Rightarrow> int \<Rightarrow> int \<Rightarrow> (int \<times> int \<times> int) option"
  Lunar2Solar :: "int \<Rightarrow> int \<Rightarrow> int \<Rightarrow> date option"

text \<open>
  The constants \<^verbatim>\<open>SAT\<close>, \<^verbatim>\<open>SUN\<close> and \<^verbatim>\<open>WEEKEND\<close> that the module imports
  from the \<^verbatim>\<open>holidays\<close> package: Saturday and Sunday in the numbering of
  \<^verbatim>\<open>date.weekday()\<close>.
\<close>

definition SAT :: int where
  "SAT = 5"

definition SUN :: int where
  "SUN = 6"

definition WEEKEND :: "int list" where
  "WEEKEND = [SAT, SUN]"

section \<open>The resolution loops\<close>

text \<open>
  The bodies of the loops that the populate methods repeat, with the holiday's
  constants as parameters and \<open>Y\<close> for the method's argument \<^verbatim>\<open>year\<close>.

  \<^verbatim>\<open>ds = Converter.Lunar2Solar(Lunar(year + offset, lm, ld)).to_date()\<close>
  \<^verbatim>\<open>if ds.year == year: self[ds] = name\<close>
\<close>

definition lunar_body :: "string \<Rightarrow> int \<Rightarrow> int \<Rightarrow> collab \<Rightarrow> int \<Rightarrow> int \<Rightarrow> stmt" where
  "lunar_body name lm ld c Y offset =
     compute (Lunar2Solar c (Y + offset) lm ld)
       (\<lambda>ds. if year ds = Y then setitem ds name else pass)"

text \<open>
  \<^verbatim>\<open>ds = easter(year + offset) + rd(days=n)\<close> (or \<^verbatim>\<open>- rd(days=k)\<close>, where \<open>n = - k\<close>)
  \<^verbatim>\<open>if ds.year == year: self[ds] = name\<close>
\<close>

definition easter_body :: "string \<Rightarrow> int \<Rightarrow> collab \<Rightarrow> int \<Rightarrow> int \<Rightarrow> stmt" where
  "easter_body name n c Y offset =
     compute (easter c (Y + offset) EASTER_WESTERN)
       (\<lambda>e. compute (date_add e n)
         (\<lambda>ds. if year ds = Y then setitem ds name else pass))"

text \<open>
  \<^verbatim>\<open>ds = easter(year + offset)\<close>
  \<^verbatim>\<open>if ds.year == year: self[ds] = name\<close>
\<close>

definition easter_sunday_body :: "string \<Rightarrow> collab \<Rightarrow> int \<Rightarrow> int \<Rightarrow> stmt" where
  "easter_sunday_body name c Y offset =
     compute (easter c (Y + offset) EASTER_WESTERN)
       (\<lambda>ds. if year ds = Y then setitem ds name else pass)"

text \<open>
  \<^verbatim>\<open>islam_year = from_gregorian(year + offset, am, ad)[0]\<close>
  \<^verbatim>\<open>y, m, d = to_gregorian(islam_year + shift, hmonth, hday)\<close>
  \<^verbatim>\<open>if y == year: self[date(y, m, d)] = name\<close>
  The source writes \<^verbatim>\<open>islam_year\<close> where \<open>shift = 0\<close> and \<^verbatim>\<open>islam_year + 1\<close>
  where \<open>shift = 1\<close>.
\<close>

definition hijri_body ::
  "string \<Rightarrow> int \<Rightarrow> int \<Rightarrow> int \<Rightarrow> int \<Rightarrow> int \<Rightarrow> collab \<Rightarrow> int \<Rightarrow> int \<Rightarrow> stmt" where
  "hijri_body name am ad shift hmonth hday c Y offset =
     compute (from_gregorian c (Y + offset) am ad)
       (\<lambda>(islam_year, im, idy). compute (to_gregorian c (islam_year + shift) hmonth hday)
         (\<lambda>(y, m, d). if y = Y then setitem_date y m d name else pass))"

text \<open>
  Two consecutive Hijri days:
  \<^verbatim>\<open>islam_year = from_gregorian(year + offset, am, ad)[0]\<close>
  \<^verbatim>\<open>y1, m1, d1 = to_gregorian(islam_year, hmonth, hday)\<close>
  \<^verbatim>\<open>y2, m2, d2 = to_gregorian(islam_year, hmonth, hday + 1)\<close>
  \<^verbatim>\<open>if y1 == year: self[date(y1, m1, d1)] = name\<close>
  \<^verbatim>\<open>if y2 == year: self[date(y2, m2, d2)] = name\<close>
\<close>

definition hijri2_body ::
  "string \<Rightarrow> int \<Rightarrow> int \<Rightarrow> int \<Rightarrow> int \<Rightarrow> collab \<Rightarrow> int \<Rightarrow> int \<Rightarrow> stmt" where
  "hijri2_body name am ad hmonth hday c Y offset =
     compute (from_gregorian c (Y + offset) am ad)
       (\<lambda>(islam_year, im, idy). compute (to_gregorian c islam_year hmonth hday)
         (\<lambda>(y1, m1, d1). compute (to_gregorian c islam_year hmonth (hday + 1))
           (\<lambda>(y2, m2, d2). run
              [if y1 = Y then setitem_date y1 m1 d1 name else pass,
               if y2 = Y then setitem_date y2 m2 d2 name else pass])))"

text \<open>Three consecutive Hijri days, in the same way (Pakistan).\<close>

definition hijri3_body ::
  "string \<Rightarrow> int \<Rightarrow> int \<Rightarrow> int \<Rightarrow> int \<Rightarrow> collab \<Rightarrow> int \<Rightarrow> int \<Rightarrow> stmt" where
  "hijri3_body name am ad hmonth hday c Y offset =
     compute (from_gregorian c (Y + offset) am ad)
       (\<lambda>(islam_year, im, idy). compute (to_gregorian c islam_year hmonth hday)
         (\<lambda>(y1, m1, d1). compute (to_gregorian c islam_year hmonth (hday + 1))
           (\<lambda>(y2, m2, d2). compute (to_gregorian c islam_year hmonth (hday + 2))
             (\<lambda>(y3, m3, d3). run
                [if y1 = Y then setitem_date y1 m1 d1 name else pass,
                 if y2 = Y then setitem_date y2 m2 d2 name else pass,
                 if y3 = Y then setitem_date y3 m3 d3 name else pass]))))"


section \<open>Indonesia\<close>

text \<open>
  \<^verbatim>\<open>if not self.observed and date(year, 1, 1).weekday() in WEEKEND: pass\<close>
  \<^verbatim>\<open>else: self[date(year, 1, 1)] = "New Year's Day"\<close>
  The weekday is evaluated only when \<^verbatim>\<open>observed\<close> is false.
\<close>

definition ID_new_year :: "int \<Rightarrow> stmt" where
  "ID_new_year Y s =
     (if \<not> observed s
      then compute (date_new Y 1 1)
             (\<lambda>jan1. if weekday jan1 \<in> set WEEKEND then pass
                      else setitem_date Y 1 1 ''New Year's Day'') s
      else setitem_date Y 1 1 ''New Year's Day'' s)"

text \<open>The warning is issued before the table is consulted, whatever the year.\<close>

definition ID_nyepi :: "int \<Rightarrow> stmt" where
  "ID_nyepi Y = run
     [warn ''We only support Nyepi holiday from 2009 to 2019'',
      if Y = 2009 then setitem_date Y 3 26 ''Day of Silence/ Nyepi''
      else if Y = 2010 then setitem_date Y 3 16 ''Day of Silence/ Nyepi''
      else if Y = 2011 then setitem_date Y 3 5 ''Day of Silence/ Nyepi''
      else if Y = 2012 then setitem_date Y 3 23 ''Day of Silence/ Nyepi''
      else if Y = 2013 then setitem_date Y 3 12 ''Day of Silence/ Nyepi''
      else if Y = 2014 then setitem_date Y 3 31 ''Day of Silence/ Nyepi''
      else if Y = 2015 then setitem_date Y 3 21 ''Day of Silence/ Nyepi''
      else if Y = 2016 then setitem_date Y 3 9 ''Day of Silence/ Nyepi''
      else if Y = 2017 then setitem_date Y 3 28 ''Day of Silence/ Nyepi''
      else if Y = 2018 then setitem_date Y 3 17 ''Day of Silence/ Nyepi''
      else if Y = 2019 then setitem_date Y 3 7 ''Day of Silence/ Nyepi''
      else pass]"

text \<open>
  Eid al-Fitr in Indonesia.  The first assignment takes the year of the first day
  and the month and day of the second:
  \<^verbatim>\<open>if y1 == year: self[date(y1, m2, d2)] = name\<close>
  \<^verbatim>\<open>if y2 == year: self[date(y2, m2, d2)] = name\<close>
\<close>

definition ID_eid_al_fitr_body :: "collab \<Rightarrow> int \<Rightarrow> int \<Rightarrow> stmt" where
  "ID_eid_al_fitr_body c Y offset =
     compute (from_gregorian c (Y + offset) 6 15)
       (\<lambda>(islam_year, im, idy). compute (to_gregorian c islam_year 10 1)
         (\<lambda>(y1, m1, d1). compute (to_gregorian c islam_year 10 2)
           (\<lambda>(y2, m2, d2). run
              [if y1 = Y then setitem_date y1 m2 d2 ''Eid al-Fitr'' else pass,
               if y2 = Y then setitem_date y2 m2 d2 ''Eid al-Fitr'' else pass])))"

definition Indonesia_populate :: "collab \<Rightarrow> int \<Rightarrow> stmt" where
  "Indonesia_populate c Y = run
     [ID_new_year Y,
      for_offset (lunar_body ''Chinese New Year'' 1 1 c Y),
      ID_nyepi Y,
      for_offset (hijri_body ''Ascension of the Prophet'' 3 17 0 7 27 c Y),
      setitem_date Y 5 1 ''Labor Day'',
      for_offset (easter_body ''Ascension of Jesus'' 39 c Y),
      for_offset (lunar_body ''Buddha's Birthday'' 4 15 c Y),
      if Y \<ge> 2017 then setitem_date Y 6 1 ''Pancasila Day'' else pass,
      for_offset (ID_eid_al_fitr_body c Y),
      setitem_date Y 8 17 ''Independence Day'',
      for_offset (hijri_body ''Feast of the Sacrifice'' 8 22 0 12 10 c Y),
      for_offset (hijri_body ''Islamic New Year'' 9 11 1 1 1 c Y),
      for_offset (hijri_body ''Birth of the Prophet'' 11 20 1 3 12 c Y),
      setitem_date Y 12 25 ''Christmas'']"

section \<open>India\<close>

text \<open>
  \<^verbatim>\<open>self[date(year, m1, d1)] = name1\<close>; \<^verbatim>\<open>self[date(year, m2, d2)] = name2\<close>,
  one branch of the Diwali and Holi table.
\<close>

definition diwali_holi :: "int \<Rightarrow> int \<Rightarrow> int \<Rightarrow> int \<Rightarrow> int \<Rightarrow> stmt" where
  "diwali_holi Y m1 d1 m2 d2 =
     run [setitem_date Y m1 d1 ''Diwali'', setitem_date Y m2 d2 ''Holi'']"

definition IN_diwali_holi :: "int \<Rightarrow> stmt" where
  "IN_diwali_holi Y = run
     [warn ''We only support Diwali and Holi holidays from 2010 to 2030'',
      if Y = 2010 then diwali_holi Y 12 5 2 28
      else if Y = 2011 then diwali_holi Y 10 26 3 19
      else if Y = 2012 then diwali_holi Y 11 13 3 8
      else if Y = 2013 then diwali_holi Y 11 3 3 26
      else if Y = 2014 then diwali_holi Y 10 23 3 17
      else if Y = 2015 then diwali_holi Y 11 11 3 6
      else if Y = 2016 then diwali_holi Y 10 30 3 24
      else if Y = 2017 then diwali_holi Y 10 19 3 13
      else if Y = 2018 then diwali_holi Y 11 7 3 2
      else if Y = 2019 then diwali_holi Y 10 27 3 21
      else if Y = 2020 then diwali_holi Y 11 14 3 9
      else if Y = 2021 then diwali_holi Y 11 4 3 28
      else if Y = 2022 then diwali_holi Y 10 24 3 18
      else if Y = 2023 then diwali_holi Y 10 12 3 7
      else if Y = 2024 then diwali_holi Y 11 1 3 25
      else if Y = 2025 then diwali_holi Y 10 21 3 14
      else if Y = 2026 then diwali_holi Y 11 8 3 3
      else if Y = 2027 then diwali_holi Y 10 29 3 22
      else if Y = 2028 then diwali_holi Y 10 17 3 11
      else if Y = 2029 then diwali_holi Y 11 5 2 28
      else if Y = 2030 then diwali_holi Y 10 26 3 19
      else pass]"

definition India_populate :: "collab \<Rightarrow> int \<Rightarrow> stmt" where
  "India_populate c Y = run
     [setitem_date Y 1 26 ''Republic Day'',
      setitem_date Y 8 15 ''Independence Day'',
      setitem_date Y 10 2 ''Gandhi Jayanti'',
      IN_diwali_holi Y,
      for_offset (hijri_body ''Day of Ashura'' 10 1 0 1 10 c Y),
      for_offset (hijri_body ''Mawlid'' 11 20 0 3 12 c Y),
      for_offset (hijri2_body ''Eid al-Fitr'' 6 15 10 1 c Y),
      for_offset (hijri_body ''Feast of the Sacrifice'' 8 22 0 12 10 c Y),
      setitem_date Y 1 1 ''New Year's Day'',
      for_offset (easter_body ''Palm Sunday'' (- 7) c Y),
      for_offset (easter_body ''Maundy Thursday'' (- 3) c Y),
      for_offset (easter_body ''Good Friday'' (- 2) c Y),
      for_offset (easter_sunday_body ''Easter Sunday'' c Y),
      for_offset (easter_body ''Feast of Pentecost'' 49 c Y),
      setitem_date Y 9 5 ''Fest of St. Theresa of Calcutta'',
      setitem_date Y 9 8 ''Feast of the Blessed Virgin'',
      setitem_date Y 11 1 ''All Saints Day'',
      setitem_date Y 11 2 ''All Souls Day'',
      setitem_date Y 12 25 ''Christmas Day'',
      setitem_date Y 12 26 ''Boxing Day'',
      setitem_date Y 12 30 ''Feast of Holy Family'']"

section \<open>Kyrgyzstan\<close>

definition Kyrgyzstan_populate :: "collab \<Rightarrow> int \<Rightarrow> stmt" where
  "Kyrgyzstan_populate c Y = run
     [setitem_date Y 1 1 ''New Year's Day'',
      setitem_date Y 1 7 ''Orthodox Christmas Day'',
      setitem_date Y 2 23 ''Fatherland Defender's Day'',
      setitem_date Y 3 8 ''International Women's Day'',
      setitem_date Y 3 21 ''Nooruz Mairamy'',
      setitem_date Y 4 7 ''Day of the People's April Revolution'',
      setitem_date Y 5 1 ''Spring and Labour Day'',
      setitem_date Y 5 1 ''Spring and Labour Day'',
      setitem_date Y 5 5 ''Constitution Day'',
      setitem_date Y 5 9 ''Victory Day'',
      setitem_date Y 6 1 ''Russia Day'',
      setitem_date Y 8 31 ''Independence Day'',
      setitem_date Y 11 7 ''Day 1 of History and Commemoration of Ancestors'',
      setitem_date Y 11 8 ''Day 2 of History and Commemoration of Ancestors'',
      setitem_date Y 12 31 ''New Year's Eve'']"


section \<open>Thailand\<close>

text \<open>Magha Pujab: a table without a warning.\<close>

definition TH_magha_pujab :: "int \<Rightarrow> stmt" where
  "TH_magha_pujab Y =
     (if Y = 2016 then setitem_date Y 2 22 ''Magha Pujab/Makha Bucha''
      else if Y = 2017 then setitem_date Y 2 11 ''Magha Pujab/Makha Bucha''
      else if Y = 2018 then setitem_date Y 3 1 ''Magha Pujab/Makha Bucha''
      else if Y = 2019 then setitem_date Y 2 19 ''Magha Pujab/Makha Bucha''
      else pass)"

text \<open>
  \<^verbatim>\<open>april_6 = date(year, 4, 6).weekday()\<close>
  \<^verbatim>\<open>if april_6 == 5: self[date(year, 4, 6 + 2)] = name\<close>
  \<^verbatim>\<open>elif april_6 == 6: self[date(year, 4, 6 + 1)] = name\<close>
  \<^verbatim>\<open>else: self[date(year, 4, 6)] = name\<close>
\<close>

definition TH_chakri :: "int \<Rightarrow> stmt" where
  "TH_chakri Y =
     compute (date_new Y 4 6)
       (\<lambda>dt. let april_6 = weekday dt
             in if april_6 = 5 then setitem_date Y 4 (6 + 2) ''Chakri Memorial Day''
                else if april_6 = 6 then setitem_date Y 4 (6 + 1) ''Chakri Memorial Day''
                else setitem_date Y 4 6 ''Chakri Memorial Day'')"

definition TH_asalha_puja :: "int \<Rightarrow> stmt" where
  "TH_asalha_puja Y = run
     [warn ''We only support Asalha Puja holiday from 2006 to 2025'',
      if Y = 2006 then setitem_date Y 7 11 ''Asalha Puja''
      else if Y = 2007 then setitem_date Y 6 30 ''Asalha Puja''
      else if Y = 2008 then setitem_date Y 7 18 ''Asalha Puja''
      else if Y = 2009 then setitem_date Y 7 7 ''Asalha Puja''
      else if Y = 2010 then setitem_date Y 7 25 ''Asalha Puja''
      else if Y = 2011 then setitem_date Y 7 15 ''Asalha Puja''
      else if Y = 2012 then setitem_date Y 8 2 ''Asalha Puja''
      else if Y = 2013 then setitem_date Y 7 30 ''Asalha Puja''
      else if Y = 2014 then setitem_date Y 7 13 ''Asalha Puja''
      else if Y = 2015 then setitem_date Y 7 30 ''Asalha Puja''
      else if Y = 2016 then setitem_date Y 7 15 ''Asalha Puja''
      else if Y = 2017 then setitem_date Y 7 9 ''Asalha Puja''
      else if Y = 2018 then setitem_date Y 7 29 ''Asalha Puja''
      else if Y = 2019 then setitem_date Y 7 16 ''Asalha Puja''
      else if Y = 2020 then setitem_date Y 7 5 ''Asalha Puja''
      else if Y = 2021 then setitem_date Y 7 24 ''Asalha Puja''
      else if Y = 2022 then setitem_date Y 7 13 ''Asalha Puja''
      else if Y = 2023 then setitem_date Y 7 3 ''Asalha Puja''
      else if Y = 2024 then setitem_date Y 7 21 ''Asalha Puja''
      else if Y = 2025 then setitem_date Y 7 10 ''Asalha Puja''
      else pass]"

definition TH_vassa :: "int \<Rightarrow> stmt" where
  "TH_vassa Y = run
     [warn ''We only support Vassa holiday from 2006 to 2020'',
      if Y = 2006 then setitem_date Y 7 12 ''Beginning of Vassa''
      else if Y = 2007 then setitem_date Y 7 31 ''Beginning of Vassa''
      else if Y = 2008 then setitem_date Y 7 19 ''Beginning of Vassa''
      else if Y = 2009 then setitem_date Y 7 8 ''Beginning of Vassa''
      else if Y = 2010 then setitem_date Y 7 27 ''Beginning of Vassa''
      else if Y = 2011 then setitem_date Y 7 16 ''Beginning of Vassa''
      else if Y = 2012 then setitem_date Y 8 3 ''Beginning of Vassa''
      else if Y = 2013 then setitem_date Y 7 23 ''Beginning of Vassa''
      else if Y = 2014 then setitem_date Y 7 13 ''Beginning of Vassa''
      else if Y = 2015 then setitem_date Y 8 1 ''Beginning of Vassa''
      else if Y = 2016 then setitem_date Y 7 20 ''Beginning of Vassa''
      else if Y = 2017 then setitem_date Y 7 9 ''Beginning of Vassa''
      else if Y = 2018 then setitem_date Y 7 28 ''Beginning of Vassa''
      else if Y = 2019 then setitem_date Y 7 17 ''Beginning of Vassa''
      else if Y = 2020 then setitem_date Y 7 6 ''Beginning of Vassa''
      else pass]"

definition Thailand_populate :: "collab \<Rightarrow> int \<Rightarrow> stmt" where
  "Thailand_populate c Y = run
     [setitem_date Y 1 1 ''New Year's Day'',
      TH_magha_pujab Y,
      TH_chakri Y,
      setitem_date Y 4 14 ''Songkran Festival'',
      for_offset (lunar_body ''Buddha's Birthday'' 4 15 c Y),
      if Y < 2017 then setitem_date Y 5 5 ''Coronation Day'' else pass,
      setitem_date Y 7 28 ''King Maha Vajiralongkorn's Birthday'',
      TH_asalha_puja Y,
      TH_vassa Y,
      setitem_date Y 8 12 ''The Queen Sirikit's Birthday'',
      setitem_date Y 10 13 ''Anniversary for the Death of King Bhumibol Adulyadej'',
      setitem_date Y 10 23 ''King Chulalongkorn Day'',
      setitem_date Y 12 5 ''King Bhumibol Adulyadej's Birthday Anniversary'',
      setitem_date Y 12 10 ''Constitution Day'',
      setitem_date Y 12 31 ''New Year's Eve'']"

section \<open>Philippines\<close>

text \<open>
  \<^verbatim>\<open>islam_year = from_gregorian(year + offset, 6, 15)[0]\<close>
  \<^verbatim>\<open>y, m, d = to_gregorian(islam_year, 10, 1)\<close>
  \<^verbatim>\<open>ds = date(y, m, d) - timedelta(days=1)\<close>
  \<^verbatim>\<open>if ds.year == year: self[ds] = name\<close>
\<close>

definition PH_eid_al_fitr_body :: "collab \<Rightarrow> int \<Rightarrow> int \<Rightarrow> stmt" where
  "PH_eid_al_fitr_body c Y offset =
     compute (from_gregorian c (Y + offset) 6 15)
       (\<lambda>(islam_year, im, idy). compute (to_gregorian c islam_year 10 1)
         (\<lambda>(y, m, d). compute (date_new y m d)
           (\<lambda>dt. compute (date_add dt (- 1))
             (\<lambda>ds. if year ds = Y then setitem ds ''Eid al-Fitr'' else pass))))"

definition Philippines_populate :: "collab \<Rightarrow> int \<Rightarrow> stmt" where
  "Philippines_populate c Y = run
     [setitem_date Y 1 1 ''New Year's Day'',
      for_offset (easter_body ''Maundy Thursday'' (- 3) c Y),
      for_offset (easter_body ''Good Friday'' (- 2) c Y),
      setitem_date Y 4 9 ''Day of Valor'',
      setitem_date Y 5 1 ''Labor Day'',
      setitem_date Y 6 12 ''Independence Day'',
      for_offset (PH_eid_al_fitr_body c Y),
      for_offset (hijri_body ''Feast of the Sacrifice'' 8 22 0 12 10 c Y),
      setitem_date Y 8 27 ''National Heroes' Day'',
      setitem_date Y 11 30 ''Bonifacio Day'',
      setitem_date Y 12 25 ''Christmas Day'',
      setitem_date Y 12 30 ''Rizal Day'']"

section \<open>Pakistan\<close>

definition Pakistan_populate :: "collab \<Rightarrow> int \<Rightarrow> stmt" where
  "Pakistan_populate c Y = run
     [setitem_date Y 2 5 ''Kashmir Solidarity Day'',
      setitem_date Y 3 23 ''Pakistan Day'',
      setitem_date Y 5 1 ''Labor Day'',
      setitem_date Y 8 14 ''Independence Day'',
      setitem_date Y 11 9 ''Iqbal Day'',
      setitem_date Y 12 25 ''Christmas Day'',
      for_offset (hijri3_body ''Feast of the Sacrifice'' 8 22 12 10 c Y),
      for_offset (hijri3_body ''Eid al-Fitr'' 6 15 10 1 c Y),
      for_offset (hijri_body ''Mawlid'' 11 20 0 3 12 c Y),
      for_offset (hijri2_body ''Day of Ashura'' 10 1 1 10 c Y),
      for_offset (hijri_body ''Shab e Mairaj'' 4 13 0 7 27 c Y),
      setitem_date Y 9 6 ''Defence Day'',
      setitem_date Y 9 11 ''Death Anniversary of Quaid-e-Azam'']"

section \<open>Russia, Belarus and Georgia\<close>

definition Russia_populate :: "collab \<Rightarrow> int \<Rightarrow> stmt" where
  "Russia_populate c Y = run
     [setitem_date Y 1 1 ''New Year's Day'',
      setitem_date Y 1 7 ''Orthodox Christmas Day'',
      setitem_date Y 12 25 ''Christmas Day'',
      setitem_date Y 2 23 ''Defender of the Fatherland Day'',
      setitem_date Y 3 8 ''International Women's Day'',
      setitem_date Y 8 22 ''National Flag Day'',
      setitem_date Y 5 1 ''Spring and Labour Day'',
      setitem_date Y 5 9 ''Victory Day'',
      setitem_date Y 6 12 ''Russia Day'',
      setitem_date Y 11 4 ''Unity Day'']"

text \<open>
  \<^verbatim>\<open>self[easter(year, EASTER_ORTHODOX) + timedelta(days=n)] = name\<close>, with no
  search over neighbouring years and no guard on the year.
\<close>

definition orthodox_offset :: "string \<Rightarrow> int \<Rightarrow> collab \<Rightarrow> int \<Rightarrow> stmt" where
  "orthodox_offset name n c Y =
     compute (easter c Y EASTER_ORTHODOX)
       (\<lambda>e. compute (date_add e n) (\<lambda>key. setitem key name))"

text \<open>\<^verbatim>\<open>self[easter(year, EASTER_ORTHODOX)] = name\<close>.\<close>

definition orthodox_sunday :: "string \<Rightarrow> collab \<Rightarrow> int \<Rightarrow> stmt" where
  "orthodox_sunday name c Y =
     compute (easter c Y EASTER_ORTHODOX) (\<lambda>key. setitem key name)"

definition Belarus_populate :: "collab \<Rightarrow> int \<Rightarrow> stmt" where
  "Belarus_populate c Y = run
     [setitem_date Y 1 1 ''New Year's Day'',
      setitem_date Y 1 7 ''Orthodox Christmas Day'',
      setitem_date Y 3 8 ''International Women's Day'',
      orthodox_offset ''Commemoration Day'' 9 c Y,
      setitem_date Y 5 1 ''Spring and Labour Day'',
      setitem_date Y 5 9 ''Victory Day'',
      setitem_date Y 7 3 ''Independence Day'',
      setitem_date Y 11 7 ''October Revolution Day'',
      setitem_date Y 12 25 ''Christmas Day'']"

definition Georgia_populate :: "collab \<Rightarrow> int \<Rightarrow> stmt" where
  "Georgia_populate c Y = run
     [setitem_date Y 1 1 ''New Year's Day'',
      setitem_date Y 1 2 ''Second day of the New Year'',
      setitem_date Y 1 7 ''Orthodox Christmas'',
      setitem_date Y 1 19 ''Baptism Day of our Lord Jesus Christ'',
      setitem_date Y 3 3 ''Mother's Day'',
      setitem_date Y 3 8 ''International Women's Day'',
      orthodox_offset ''Good Friday'' (- 2) c Y,
      orthodox_offset ''Great Saturday'' (- 1) c Y,
      orthodox_sunday ''Easter Sunday'' c Y,
      orthodox_offset ''Easter Monday'' 1 c Y,
      setitem_date Y 4 9 ''National Unity Day'',
      setitem_date Y 5 9 ''Victory Day'',
      setitem_date Y 5 12 ''Saint Andrew the First-Called Day'',
      setitem_date Y 5 26 ''Independence Day'',
      setitem_date Y 8 28 ''Saint Mary's Day'',
      setitem_date Y 10 14 ''Day of Svetitskhoveli Cathedral'',
      setitem_date Y 12 23 ''Saint George's Day'']"

section \<open>Dispatch on the class\<close>

text \<open>
  The nine classes the module defines.  \<^verbatim>\<open>ID\<close>, \<^verbatim>\<open>IN\<close>, \<^verbatim>\<open>KG\<close>, \<^verbatim>\<open>TH\<close>,
  \<^verbatim>\<open>PH\<close>, \<^verbatim>\<open>PK\<close>, \<^verbatim>\<open>RU\<close>, \<^verbatim>\<open>BY\<close> and \<^verbatim>\<open>GE\<close> are subclasses with an empty
  body and populate as their parents do; \<^verbatim>\<open>TU\<close> inherits from a class of the
  \<^verbatim>\<open>holidays\<close> package and has no populate method in this module.
\<close>

datatype country =
  Indonesia | India | Kyrgyzstan | Thailand | Philippines | Pakistan | Russia | Belarus | Georgia

fun populate :: "country \<Rightarrow> collab \<Rightarrow> int \<Rightarrow> stmt" where
  "populate Indonesia = Indonesia_populate"
| "populate India = India_populate"
| "populate Kyrgyzstan = Kyrgyzstan_populate"
| "populate Thailand = Thailand_populate"
| "populate Philippines = Philippines_populate"
| "populate Pakistan = Pakistan_populate"
| "populate Russia = Russia_populate"
| "populate Belarus = Belarus_populate"
| "populate Georgia = Georgia_populate"


section \<open>A concrete set of collaborators\<close>

text \<open>
  To run the populate methods on concrete years the collaborators need values.
  The functions below follow the published algorithms of the libraries: the
  Easter computus of \<^verbatim>\<open>dateutil.easter\<close> and the arithmetic (tabular) Islamic
  calendar of \<^verbatim>\<open>convertdate.islamic\<close>, whose day count is taken relative to
  the proleptic Gregorian ordinal (the Julian day minus 1721424.5; the Islamic
  epoch is ordinal 227015).  They are used where a theorem names \<open>reference\<close>
  and nowhere else.
\<close>

definition dateutil_easter :: "int \<Rightarrow> easter_method \<Rightarrow> date option" where
  "dateutil_easter y method =
     (let g = y mod 19;
          (i, j, e) =
            (if method \<noteq> EASTER_WESTERN
             then let i = (19 * g + 15) mod 30;
                      j = (y + y div 4 + i) mod 7;
                      e = (if method = EASTER_ORTHODOX
                           then (if y > 1600
                                 then 10 + y div 100 - 16 - (y div 100 - 16) div 4
                                 else 10)
                           else 0)
                  in (i, j, e)
             else let c = y div 100;
                      h = (c - c div 4 - (8 * c + 13) div 25 + 19 * g + 15) mod 30;
                      i = h - (h div 28) * (1 - (h div 28) * (29 div (h + 1)) * ((21 - g) div 11));
                      j = (y + y div 4 + i + 2 - c + c div 4) mod 7
                  in (i, j, 0));
          p = i - j + e;
          d = 1 + (p + 27 + (p + 6) div 40) mod 31;
          m = 3 + (p + 26) div 30
      in date_new y m d)"

definition ISLAMIC_EPOCH :: int where
  "ISLAMIC_EPOCH = 227015"

definition hijri_ordinal :: "int \<Rightarrow> int \<Rightarrow> int \<Rightarrow> int" where
  "hijri_ordinal y m d =
     d + (59 * (m - 1) + 1) div 2 + (y - 1) * 354 + (3 + 11 * y) div 30 + ISLAMIC_EPOCH - 1"

definition hijri_of_ordinal :: "int \<Rightarrow> int \<times> int \<times> int" where
  "hijri_of_ordinal n =
     (let y = (30 * (n - ISLAMIC_EPOCH) + 10646) div 10631;
          m = min 12 (- ((- (2 * (n - (29 + hijri_ordinal y 1 1)))) div 59) + 1);
          d = n - hijri_ordinal y m 1 + 1
      in (y, m, d))"

definition tabular_from_gregorian :: "int \<Rightarrow> int \<Rightarrow> int \<Rightarrow> (int \<times> int \<times> int) option" where
  "tabular_from_gregorian y m d =
     (case date_new y m d of None \<Rightarrow> None | Some dt \<Rightarrow> Some (hijri_of_ordinal (toordinal dt)))"

definition tabular_to_gregorian :: "int \<Rightarrow> int \<Rightarrow> int \<Rightarrow> (int \<times> int \<times> int) option" where
  "tabular_to_gregorian y m d =
     (let n = hijri_ordinal y m d
      in if 0 < n \<and> n \<le> MAXORDINAL then Some (ord2ymd n) else None)"

text \<open>
  The lunisolar calendar of \<^verbatim>\<open>lunarcalendar\<close> is table driven.  Its stand-in
  places day \<open>d\<close> of lunar month \<open>m\<close> at day \<open>d + 4\<close> of month \<open>m + 1\<close> of the same
  Gregorian year, which is where the lunar new year and the full moon of the fourth
  month fell in 2019.
\<close>

definition lunar_stand_in :: "int \<Rightarrow> int \<Rightarrow> int \<Rightarrow> date option" where
  "lunar_stand_in y m d = date_new y (m + 1) (d + 4)"

definition reference :: collab where
  "reference =
     \<lparr>easter = dateutil_easter,
      from_gregorian = tabular_from_gregorian,
      to_gregorian = tabular_to_gregorian,
      Lunar2Solar = lunar_stand_in\<rparr>"


section \<open>Notions used in the statements\<close>

text \<open>The assignments executed between a state and a later one, in order.\<close>

definition recorded :: "holidays \<Rightarrow> holidays \<Rightarrow> (date \<times> string) list" where
  "recorded s s' = drop (length (assigned s)) (assigned s')"

text \<open>
  A list of assignments and a list of warnings applied to a state.  A later
  assignment to a key overrides an earlier one.
\<close>

definition apply_writes :: "holidays \<Rightarrow> (date \<times> string) list \<times> string list \<Rightarrow> holidays" where
  "apply_writes s w =
     s\<lparr>items := items s ++ map_of (rev (fst w)),
       assigned := assigned s @ fst w,
       warned := warned s @ snd w\<rparr>"

text \<open>
  On the instances whose \<open>observed\<close> flag lies in \<open>B\<close>, the statement \<open>f\<close> either
  always raises or always performs the same assignments and warnings: it reads
  nothing else of the state.
\<close>

definition writes :: "bool set \<Rightarrow> stmt \<Rightarrow> bool" where
  "writes B f \<longleftrightarrow> (\<exists>r. \<forall>s. observed s \<in> B \<longrightarrow> f s = map_option (apply_writes s) r)"

text \<open>
  Whenever \<open>f\<close> returns from a state whose flag lies in \<open>B\<close>, it has appended a list
  of assignments that satisfies \<open>P\<close>, the dictionary holds them, and the flag is
  unchanged.
\<close>

definition effect :: "bool set \<Rightarrow> ((date \<times> string) list \<Rightarrow> bool) \<Rightarrow> stmt \<Rightarrow> bool" where
  "effect B P f \<longleftrightarrow>
     (\<forall>s s'. observed s \<in> B \<longrightarrow> f s = Some s' \<longrightarrow>
        (\<exists>new. assigned s' = assigned s @ new \<and> items s' = items s ++ map_of (rev new)
               \<and> observed s' = observed s \<and> P new))"

text \<open>Every assignment \<open>f\<close> makes satisfies \<open>Q\<close>.\<close>

definition emits :: "bool set \<Rightarrow> (date \<Rightarrow> string \<Rightarrow> bool) \<Rightarrow> stmt \<Rightarrow> bool" where
  "emits B Q = effect B (list_all (\<lambda>(d, n). Q d n))"

text \<open>
  The date the weekend rule for Chakri Memorial Day names: April 8 when April 6 is a
  Saturday, April 7 when it is a Sunday, April 6 otherwise.
\<close>

definition chakri_date :: "int \<Rightarrow> date" where
  "chakri_date Y =
     \<lparr>year = Y, month = 4,
      day = (if weekday \<lparr>year = Y, month = 4, day = 6\<rparr> = SAT then 8
             else if weekday \<lparr>year = Y, month = 4, day = 6\<rparr> = SUN then 7
             else 6)\<rparr>"

text \<open>
  The holidays defined relative to Western Easter, by class and name, with their
  offsets in days.
\<close>

definition western_easter_offset :: "country \<Rightarrow> string \<rightharpoonup> int" where
  "western_easter_offset cls name =
     map_of
       [((Indonesia, ''Ascension of Jesus''), 39),
        ((India, ''Palm Sunday''), - 7),
        ((India, ''Maundy Thursday''), - 3),
        ((India, ''Good Friday''), - 2),
        ((India, ''Easter Sunday''), 0),
        ((India, ''Feast of Pentecost''), 49),
        ((Philippines, ''Maundy Thursday''), - 3),
        ((Philippines, ''Good Friday''), - 2)]
       (cls, name)"

text \<open>
  The month estimate at the end of \<^verbatim>\<open>_ord2ymd\<close>, on its own: from the offset \<open>n\<close>
  of a day within its year, the month and the number of days that precede the month.
\<close>

definition month_of :: "int \<Rightarrow> bool \<Rightarrow> int \<times> int" where
  "month_of n leapyear =
     (let m = (n + 50) div 32;
          preceding = DAYS_BEFORE_MONTH ! nat m + (if m > 2 \<and> leapyear then 1 else 0)
      in if preceding > n
         then (m - 1, preceding - (DAYS_IN_MONTH ! nat (m - 1)
                                   + (if m - 1 = 2 \<and> leapyear then 1 else 0)))
         else (m, preceding))"

text \<open>A date as the constructor builds it: its fields pass the constructor's checks.\<close>

definition valid_date :: "date \<Rightarrow> bool" where
  "valid_date dt \<longleftrightarrow> date_new (year dt) (month dt) (day dt) = Some dt"

text \<open>
  The date \<open>d\<close> lies in the year \<open>Y\<close> and is Western Easter of \<open>Y - 1\<close>, \<open>Y\<close> or
  \<open>Y + 1\<close> moved by \<open>off\<close> days; Easter Sunday itself (\<open>off = 0\<close>) is assigned as
  the collaborator returns it.  Moving \<open>d\<close> back by \<open>off\<close> days gives that Easter
  date again, provided it is a date the constructor would build.
\<close>

definition easter_plus :: "collab \<Rightarrow> int \<Rightarrow> int \<Rightarrow> date \<Rightarrow> bool" where
  "easter_plus c Y off d \<longleftrightarrow>
     year d = Y \<and>
     (\<exists>k \<in> {- 1, 0, 1}. \<exists>e. easter c (Y + k) EASTER_WESTERN = Some e \<and>
        (if off = 0 then d = e else date_add e off = Some d) \<and>
        (valid_date e \<longrightarrow> date_add d (- off) = Some e))"

text \<open>
  Collaborators whose Western Easter has been replaced by the Orthodox one: they
  agree with \<open>reference\<close> on Orthodox Easter and on nothing Western.
\<close>

definition orthodox_only :: collab where
  "orthodox_only = reference\<lparr>easter := \<lambda>y method. dateutil_easter y EASTER_ORTHODOX\<rparr>"

text \<open>
  The date \<open>d\<close> has the year \<open>Y\<close> and the month and day that the Hijri converter
  returns for 2 Shawwal, the second day of Eid al-Fitr, in one of the three candidate
  Hijri years.
\<close>

definition second_day :: "collab \<Rightarrow> int \<Rightarrow> date \<Rightarrow> bool" where
  "second_day c Y d \<longleftrightarrow>
     (\<exists>k \<in> {- 1, 0, 1}. \<exists>iy im idy y2 m2 d2.
        from_gregorian c (Y + k) 6 15 = Some (iy, im, idy) \<and>
        to_gregorian c iy 10 2 = Some (y2, m2, d2) \<and>
        d = \<lparr>year = Y, month = m2, day = d2\<rparr>)"

text \<open>
  The hard-coded tables of the source, read as tables: each year that a chain of
  \<^verbatim>\<open>if year == ...\<close> tests for, with the month and the day of the date assigned
  in that branch.
\<close>

definition nyepi_dates :: "(int \<times> int \<times> int) list" where
  "nyepi_dates =
     [(2009, 3, 26), (2010, 3, 16), (2011, 3, 5), (2012, 3, 23), (2013, 3, 12), (2014, 3, 31),
      (2015, 3, 21), (2016, 3, 9), (2017, 3, 28), (2018, 3, 17), (2019, 3, 7)]"

definition diwali_dates :: "(int \<times> int \<times> int) list" where
  "diwali_dates =
     [(2010, 12, 5), (2011, 10, 26), (2012, 11, 13), (2013, 11, 3), (2014, 10, 23),
      (2015, 11, 11), (2016, 10, 30), (2017, 10, 19), (2018, 11, 7), (2019, 10, 27),
      (2020, 11, 14), (2021, 11, 4), (2022, 10, 24), (2023, 10, 12), (2024, 11, 1),
      (2025, 10, 21), (2026, 11, 8), (2027, 10, 29), (2028, 10, 17), (2029, 11, 5),
      (2030, 10, 26)]"

definition holi_dates :: "(int \<times> int \<times> int) list" where
  "holi_dates =
     [(2010, 2, 28), (2011, 3, 19), (2012, 3, 8), (2013, 3, 26), (2014, 3, 17),
      (2015, 3, 6), (2016, 3, 24), (2017, 3, 13), (2018, 3, 2), (2019, 3, 21),
      (2020, 3, 9), (2021, 3, 28), (2022, 3, 18), (2023, 3, 7), (2024, 3, 25),
      (2025, 3, 14), (2026, 3, 3), (2027, 3, 22), (2028, 3, 11), (2029, 2, 28),
      (2030, 3, 19)]"

definition magha_pujab_dates :: "(int \<times> int \<times> int) list" where
  "magha_pujab_dates = [(2016, 2, 22), (2017, 2, 11), (2018, 3, 1), (2019, 2, 19)]"

definition asalha_puja_dates :: "(int \<times> int \<times> int) list" where
  "asalha_puja_dates =
     [(2006, 7, 11), (2007, 6, 30), (2008, 7, 18), (2009, 7, 7), (2010, 7, 25),
      (2011, 7, 15), (2012, 8, 2), (2013, 7, 30), (2014, 7, 13), (2015, 7, 30),
      (2016, 7, 15), (2017, 7, 9), (2018, 7, 29), (2019, 7, 16), (2020, 7, 5),
      (2021, 7, 24), (2022, 7, 13), (2023, 7, 3), (2024, 7, 21), (2025, 7, 10)]"

definition vassa_dates :: "(int \<times> int \<times> int) list" where
  "vassa_dates =
     [(2006, 7, 12), (2007, 7, 31), (2008, 7, 19), (2009, 7, 8), (2010, 7, 27),
      (2011, 7, 16), (2012, 8, 3), (2013, 7, 23), (2014, 7, 13), (2015, 8, 1),
      (2016, 7, 20), (2017, 7, 9), (2018, 7, 28), (2019, 7, 17), (2020, 7, 6)]"

text \<open>
  What a table holds for the year \<open>Y\<close>, as assignments under the holiday's name: the
  date of \<open>Y\<close> with the tabulated month and day, or nothing when the table has no row
  for \<open>Y\<close>.
\<close>

definition table_entry :: "(int \<times> int \<times> int) list \<Rightarrow> string \<Rightarrow> int \<Rightarrow> (date \<times> string) list" where
  "table_entry tbl name Y =
     (case map_of tbl Y of
        None \<Rightarrow> []
      | Some (m, d) \<Rightarrow> [(\<lparr>year = Y, month = m, day = d\<rparr>, name)])"

text \<open>The holidays that are resolved from a table, by class and name.\<close>

definition hardcoded_table :: "country \<Rightarrow> string \<rightharpoonup> (int \<times> int \<times> int) list" where
  "hardcoded_table cls name =
     map_of
       [((Indonesia, ''Day of Silence/ Nyepi''), nyepi_dates),
        ((India, ''Diwali''), diwali_dates),
        ((India, ''Holi''), holi_dates),
        ((Thailand, ''Magha Pujab/Makha Bucha''), magha_pujab_dates),
        ((Thailand, ''Asalha Puja''), asalha_puja_dates),
        ((Thailand, ''Beginning of Vassa''), vassa_dates)]
       (cls, name)"

section \<open>Dates and ordinals\<close>

lemma div_small: "0 \<le> e \<Longrightarrow> e < k \<Longrightarrow> (k * q + e) div k = (q::int)"
  by (simp add: div_pos_pos_trivial)

lemma div_pred:
  assumes "0 < k"
  shows "(y::int) div k = (y - 1) div k + (if y mod k = 0 then 1 else 0)"
proof -
  define q r where "q = y div k" and "r = y mod k"
  have y: "y = k * q + r" and r: "0 \<le> r" "r < k"
    using assms by (simp_all add: q_def r_def)
  show ?thesis
  proof (cases "r = 0")
    case True
    have "y - 1 = k * (q - 1) + (k - 1)" by (simp add: y True algebra_simps)
    then have "(y - 1) div k = (k * (q - 1) + (k - 1)) div k" by (simp only:)
    also have "\<dots> = q - 1" using assms by (intro div_small) simp_all
    finally show ?thesis using True by (simp add: q_def r_def)
  next
    case False
    have "y - 1 = k * q + (r - 1)" by (simp add: y)
    then have "(y - 1) div k = (k * q + (r - 1)) div k" by (simp only:)
    also have "\<dots> = q" using r False by (intro div_small) simp_all
    finally show ?thesis using False by (simp add: q_def r_def)
  qed
qed

lemma mod_400_100: "(y::int) mod 400 = 0 \<Longrightarrow> y mod 100 = 0"
  using mod_mod_cancel [of 100 400 y] by simp

lemma mod_100_4: "(y::int) mod 100 = 0 \<Longrightarrow> y mod 4 = 0"
  using mod_mod_cancel [of 4 100 y] by simp

lemma dby_step:
  "days_before_year (y + 1) = days_before_year y + (if is_leap y then 366 else 365)"
proof -
  have 1: "days_before_year (y + 1) = y * 365 + y div 4 - y div 100 + y div 400"
    by (simp add: days_before_year_def)
  have 2: "days_before_year y = (y - 1) * 365 + (y - 1) div 4 - (y - 1) div 100 + (y - 1) div 400"
    by (simp add: days_before_year_def Let_def)
  note d = div_pred [of 4 y, simplified] div_pred [of 100 y, simplified]
    div_pred [of 400 y, simplified]
  consider "y mod 400 = 0" | "y mod 400 \<noteq> 0" "y mod 100 = 0"
    | "y mod 100 \<noteq> 0" "y mod 4 = 0" | "y mod 4 \<noteq> 0" by blast
  then show ?thesis
  proof cases
    case 1
    with mod_400_100 [of y] mod_100_4 [of y] show ?thesis
      unfolding \<open>days_before_year (y + 1) = _\<close> 2 is_leap_def
      by (simp add: d algebra_simps)
  next
    case 2
    with mod_100_4 [of y] show ?thesis
      unfolding \<open>days_before_year (y + 1) = _\<close> \<open>days_before_year y = _\<close> is_leap_def
      by (simp add: d algebra_simps)
  next
    case 3
    with mod_400_100 [of y] show ?thesis
      unfolding \<open>days_before_year (y + 1) = _\<close> \<open>days_before_year y = _\<close> is_leap_def
      by (auto simp add: d algebra_simps)
  next
    case 4
    with mod_100_4 [of y] mod_400_100 [of y] show ?thesis
      unfolding \<open>days_before_year (y + 1) = _\<close> \<open>days_before_year y = _\<close> is_leap_def
      by (auto simp add: d algebra_simps)
  qed
qed

lemma month_cases:
  assumes "1 \<le> (m::int)" "m \<le> 12"
  shows "m = 1 \<or> m = 2 \<or> m = 3 \<or> m = 4 \<or> m = 5 \<or> m = 6 \<or> m = 7 \<or> m = 8
    \<or> m = 9 \<or> m = 10 \<or> m = 11 \<or> m = 12"
  using assms by arith

lemma month_of_correct:
  assumes "0 \<le> n" and "n < (if L then 366 else 365)" and "month_of n L = (m, p)"
  shows "1 \<le> m \<and> m \<le> 12 \<and> p = DAYS_BEFORE_MONTH ! nat m + (if m > 2 \<and> L then 1 else 0)
     \<and> p \<le> n \<and> n - p < (if m = 2 \<and> L then 29 else DAYS_IN_MONTH ! nat m)"
proof -
  define m0 where "m0 = (n + 50) div 32"
  have "32 * m0 \<le> n + 50" "n + 50 < 32 * m0 + 32"
    unfolding m0_def by (simp_all add: algebra_simps
        minus_mod_eq_mult_div [symmetric] pos_mod_bound pos_mod_sign)
  then have r: "32 * m0 - 50 \<le> n" "n \<le> 32 * m0 - 19" and "1 \<le> m0" "m0 \<le> 12"
    using assms(1,2) by (auto split: if_splits)
  from month_cases [OF \<open>1 \<le> m0\<close> \<open>m0 \<le> 12\<close>] show ?thesis
    using assms(3) r assms(1,2)
    by (elim disjE)
       (auto simp: month_of_def Let_def m0_def [symmetric] DAYS_BEFORE_MONTH_def
          DAYS_IN_MONTH_def nth_Cons' split: if_splits)
qed


lemma dby_decomp:
  assumes "0 \<le> b" "b \<le> 3" "0 \<le> c" "c \<le> 24" "0 \<le> e" "e \<le> 3"
  shows "days_before_year (400 * a + 100 * b + 4 * c + e + 1)
     = 146097 * a + 36524 * b + 1461 * c + 365 * e"
proof -
  have 4: "(400 * a + 100 * b + 4 * c + e) div 4 = 100 * a + 25 * b + c"
    using div_small [of e 4 "100 * a + 25 * b + c"] assms by (simp add: algebra_simps)
  have 100: "(400 * a + 100 * b + 4 * c + e) div 100 = 4 * a + b"
    using div_small [of "4 * c + e" 100 "4 * a + b"] assms by (simp add: algebra_simps)
  have 400: "(400 * a + 100 * b + 4 * c + e) div 400 = a"
    using div_small [of "100 * b + 4 * c + e" 400 a] assms by (simp add: algebra_simps)
  show ?thesis
    by (simp add: days_before_year_def Let_def 4 100 400)
qed

lemma mod_small: "0 \<le> e \<Longrightarrow> e < k \<Longrightarrow> (k * q + e) mod k = (e::int)"
  by (simp add: mod_pos_pos_trivial)

lemma leap_decomp:
  assumes "0 \<le> b" "b \<le> 3" "0 \<le> c" "c \<le> 24" "0 \<le> e" "e \<le> 3"
  shows "is_leap (400 * a + 100 * b + 4 * c + e + 1) \<longleftrightarrow> e = 3 \<and> (c \<noteq> 24 \<or> b = 3)"
proof -
  define Y where "Y = 400 * a + 100 * b + 4 * c + e + 1"
  have 4: "Y mod 4 = 0 \<longleftrightarrow> e = 3"
  proof (cases "e = 3")
    case True
    then have "Y = 4 * (100 * a + 25 * b + c + 1) + 0" by (simp add: Y_def)
    then show ?thesis using True by (simp only: mod_small) simp
  next
    case False
    have "Y = 4 * (100 * a + 25 * b + c) + (e + 1)" by (simp add: Y_def)
    moreover have "0 \<le> e + 1" "e + 1 < 4" using assms False by simp_all
    ultimately have "Y mod 4 = e + 1" by (simp only: mod_small)
    with assms False show ?thesis by simp
  qed
  have 100: "Y mod 100 = 0 \<longleftrightarrow> e = 3 \<and> c = 24"
  proof (cases "e = 3 \<and> c = 24")
    case True
    then have "Y = 100 * (4 * a + b + 1) + 0" by (simp add: Y_def)
    then show ?thesis using True by (simp only: mod_small) simp
  next
    case False
    have "Y = 100 * (4 * a + b) + (4 * c + e + 1)" by (simp add: Y_def)
    moreover have "0 \<le> 4 * c + e + 1" "4 * c + e + 1 < 100" using assms False by auto
    ultimately have "Y mod 100 = 4 * c + e + 1" by (simp only: mod_small)
    with assms False show ?thesis by auto
  qed
  have 400: "Y mod 400 = 0 \<longleftrightarrow> e = 3 \<and> c = 24 \<and> b = 3"
  proof (cases "e = 3 \<and> c = 24 \<and> b = 3")
    case True
    then have "Y = 400 * (a + 1) + 0" by (simp add: Y_def)
    then show ?thesis using True by (simp only: mod_small) simp
  next
    case False
    have "Y = 400 * a + (100 * b + 4 * c + e + 1)" by (simp add: Y_def)
    moreover have "0 \<le> 100 * b + 4 * c + e + 1" "100 * b + 4 * c + e + 1 < 400"
      using assms False by auto
    ultimately have "Y mod 400 = 100 * b + 4 * c + e + 1" by (simp only: mod_small)
    with assms False show ?thesis by auto
  qed
  show ?thesis
    unfolding is_leap_def Y_def [symmetric] 4 100 400 by auto
qed

lemma ord2ymd_unfold:
  "ord2ymd n =
     (let a = (n - 1) div 146097; r = (n - 1) mod 146097;
          b = r div 36524; r2 = r mod 36524;
          c = r2 div 1461; r3 = r2 mod 1461;
          e = r3 div 365; r4 = r3 mod 365;
          Y = 400 * a + 100 * b + 4 * c + e + 1
      in if e = 4 \<or> b = 4 then (Y - 1, 12, 31)
         else case month_of r4 (e = 3 \<and> (c \<noteq> 24 \<or> b = 3)) of (m, p) \<Rightarrow> (Y, m, r4 - p + 1))"
  by (simp add: ord2ymd_def month_of_def Let_def DI400Y_def DI100Y_def DI4Y_def algebra_simps)

lemma ord2ymd_correct:
  assumes "ord2ymd n = (y, m, d)"
  shows "1 \<le> m \<and> m \<le> 12 \<and> 1 \<le> d \<and> d \<le> days_in_month y m \<and> ymd2ord y m d = n"
proof -
  define a where "a = (n - 1) div 146097"
  define r where "r = (n - 1) mod 146097"
  define b where "b = r div 36524"
  define r2 where "r2 = r mod 36524"
  define c where "c = r2 div 1461"
  define r3 where "r3 = r2 mod 1461"
  define e where "e = r3 div 365"
  define r4 where "r4 = r3 mod 365"
  define Y where "Y = 400 * a + 100 * b + 4 * c + e + 1"
  have eqs: "n - 1 = 146097 * a + r" "r = 36524 * b + r2" "r2 = 1461 * c + r3"
      "r3 = 365 * e + r4"
    by (simp_all add: a_def r_def b_def r2_def c_def r3_def e_def r4_def)
  have bnd: "0 \<le> r" "r < 146097" "0 \<le> r2" "r2 < 36524" "0 \<le> r3" "r3 < 1461"
      "0 \<le> r4" "r4 < 365"
    by (simp_all add: r_def r2_def r3_def r4_def)
  have rng: "0 \<le> b" "b \<le> 4" "0 \<le> c" "c \<le> 24" "0 \<le> e" "e \<le> 4"
    using eqs bnd by linarith+
  have u: "ord2ymd n = (if e = 4 \<or> b = 4 then (Y - 1, 12, 31)
         else case month_of r4 (e = 3 \<and> (c \<noteq> 24 \<or> b = 3)) of (m, p) \<Rightarrow> (Y, m, r4 - p + 1))"
    unfolding ord2ymd_unfold Let_def a_def r_def b_def r2_def c_def r3_def e_def r4_def Y_def ..
  show ?thesis
  proof (cases "e = 4 \<or> b = 4")
    case False
    then have rng': "b \<le> 3" "e \<le> 3" using rng by simp_all
    define L where "L \<longleftrightarrow> e = 3 \<and> (c \<noteq> 24 \<or> b = 3)"
    obtain m' p where mp: "month_of r4 L = (m', p)" by (cases "month_of r4 L")
    from u False mp assms have ymd: "y = Y" "m = m'" "d = r4 - p + 1"
      by (simp_all add: L_def)
    have leap: "is_leap Y \<longleftrightarrow> L"
      unfolding Y_def L_def using rng rng' by (intro leap_decomp) simp_all
    have dby: "days_before_year Y = 146097 * a + 36524 * b + 1461 * c + 365 * e"
      unfolding Y_def using rng rng' by (intro dby_decomp) simp_all
    have "r4 < (if L then 366 else 365)" using bnd by simp
    from month_of_correct [OF bnd(7) this mp]
    have m: "1 \<le> m'" "m' \<le> 12"
      and p: "p = DAYS_BEFORE_MONTH ! nat m' + (if m' > 2 \<and> L then 1 else 0)"
      and d: "p \<le> r4" "r4 - p < (if m' = 2 \<and> L then 29 else DAYS_IN_MONTH ! nat m')"
      by simp_all
    have "ymd2ord Y m' (r4 - p + 1) = n"
      using eqs by (simp add: ymd2ord_def days_before_month_def dby leap p [symmetric])
    moreover have "r4 - p + 1 \<le> days_in_month Y m'"
      using d by (simp add: days_in_month_def leap)
    ultimately show ?thesis using m d by (simp add: ymd)
  next
    case True
    from u True assms have ymd: "y = Y - 1" "m = 12" "d = 31" by simp_all
    have "\<exists>b' c'. 0 \<le> b' \<and> b' \<le> 3 \<and> 0 \<le> c' \<and> c' \<le> 24 \<and> (c' \<noteq> 24 \<or> b' = 3) \<and>
        Y - 1 = 400 * a + 100 * b' + 4 * c' + 3 + 1 \<and>
        n = 146097 * a + 36524 * b' + 1461 * c' + 365 * 3 + 366"
    proof (cases "b = 4")
      case True
      with eqs bnd rng have "r2 = 0" "c = 0" "r3 = 0" "e = 0" "r4 = 0" by linarith+
      with True eqs show ?thesis
        by (intro exI [of _ 3] exI [of _ 24]) (simp add: Y_def)
    next
      case False
      with \<open>e = 4 \<or> b = 4\<close> have e: "e = 4" by simp
      with eqs bnd rng have "r4 = 0" "c \<le> 23" by linarith+
      with False e eqs rng show ?thesis
        by (intro exI [of _ b] exI [of _ c]) (simp add: Y_def)
    qed
    then obtain b' c' where bc: "0 \<le> b'" "b' \<le> 3" "0 \<le> c'" "c' \<le> 24" "c' \<noteq> 24 \<or> b' = 3"
      and Y1: "Y - 1 = 400 * a + 100 * b' + 4 * c' + 3 + 1"
      and n: "n = 146097 * a + 36524 * b' + 1461 * c' + 365 * 3 + 366" by blast
    have leap: "is_leap (Y - 1)"
      unfolding Y1 using bc leap_decomp [of b' c' 3 a] by simp
    have dby: "days_before_year (Y - 1) = 146097 * a + 36524 * b' + 1461 * c' + 365 * 3"
      unfolding Y1 using bc by (intro dby_decomp) simp_all
    have "ymd2ord (Y - 1) 12 31 = n"
      by (simp add: ymd2ord_def days_before_month_def dby leap n DAYS_BEFORE_MONTH_def nth_Cons')
    moreover have "days_in_month (Y - 1) 12 = 31"
      by (simp add: days_in_month_def DAYS_IN_MONTH_def nth_Cons')
    ultimately show ?thesis by (simp add: ymd)
  qed
qed

lemma dbm_next:
  assumes "1 \<le> m" "m \<le> 11"
  shows "days_before_month y (m + 1) = days_before_month y m + days_in_month y m"
proof -
  from assms have "m = 1 \<or> m = 2 \<or> m = 3 \<or> m = 4 \<or> m = 5 \<or> m = 6 \<or> m = 7 \<or> m = 8
    \<or> m = 9 \<or> m = 10 \<or> m = 11" by arith
  then show ?thesis
    by (elim disjE)
       (simp_all add: days_before_month_def days_in_month_def DAYS_BEFORE_MONTH_def
          DAYS_IN_MONTH_def nth_Cons')
qed

lemma dim_pos: "1 \<le> m \<Longrightarrow> m \<le> 12 \<Longrightarrow> 28 \<le> days_in_month y m"
  using month_cases [of m]
  by (auto simp: days_in_month_def DAYS_IN_MONTH_def nth_Cons')

lemma dbm_mono:
  assumes "1 \<le> m" "m \<le> m'" "m' \<le> 12"
  shows "days_before_month y m \<le> days_before_month y m'"
  using assms(2,1,3)
proof (induction m' rule: int_ge_induct)
  case base
  show ?case by simp
next
  case (step i)
  from step have "days_before_month y m \<le> days_before_month y i" by simp
  moreover have "days_before_month y (i + 1) = days_before_month y i + days_in_month y i"
    using step by (intro dbm_next) simp_all
  moreover have "28 \<le> days_in_month y i" using step by (intro dim_pos) simp_all
  ultimately show ?case by simp
qed

lemma dbm_last:
  "days_before_month y 12 + days_in_month y 12 = (if is_leap y then 366 else 365)"
  by (simp add: days_before_month_def days_in_month_def DAYS_BEFORE_MONTH_def
      DAYS_IN_MONTH_def nth_Cons')

lemma dbm_first: "days_before_month y 1 = 0"
  by (simp add: days_before_month_def DAYS_BEFORE_MONTH_def nth_Cons')

lemma dby_mono:
  assumes "y \<le> y'"
  shows "days_before_year y \<le> days_before_year y'"
  using assms
proof (induction y' rule: int_ge_induct)
  case base
  show ?case by simp
next
  case (step i)
  then show ?case using dby_step [of i] by (simp split: if_splits)
qed

lemma ymd2ord_in_year:
  assumes "1 \<le> m" "m \<le> 12" "1 \<le> d" "d \<le> days_in_month y m"
  shows "days_before_year y < ymd2ord y m d" and "ymd2ord y m d \<le> days_before_year (y + 1)"
proof -
  have "0 \<le> days_before_month y m"
    using dbm_mono [of 1 m y] assms by (simp add: dbm_first)
  with assms show "days_before_year y < ymd2ord y m d" by (simp add: ymd2ord_def)
  have "days_before_month y m + days_in_month y m \<le> days_before_month y 12 + days_in_month y 12"
  proof (cases "m = 12")
    case False
    with assms have "days_before_month y (m + 1) \<le> days_before_month y 12"
      by (intro dbm_mono) simp_all
    moreover have "days_before_month y (m + 1) = days_before_month y m + days_in_month y m"
      using assms False by (intro dbm_next) simp_all
    moreover have "28 \<le> days_in_month y 12" by (intro dim_pos) simp_all
    ultimately show ?thesis by simp
  qed simp
  with assms show "ymd2ord y m d \<le> days_before_year (y + 1)"
    by (simp add: ymd2ord_def dby_step dbm_last split: if_splits)
qed

lemma ymd2ord_inj:
  assumes v: "1 \<le> m" "m \<le> 12" "1 \<le> d" "d \<le> days_in_month y m"
    and v': "1 \<le> m'" "m' \<le> 12" "1 \<le> d'" "d' \<le> days_in_month y' m'"
    and eq: "ymd2ord y m d = ymd2ord y' m' d'"
  shows "y = y' \<and> m = m' \<and> d = d'"
proof -
  have y: "y = y'"
  proof (rule ccontr)
    assume "y \<noteq> y'"
    then consider "y + 1 \<le> y'" | "y' + 1 \<le> y" by linarith
    then show False
    proof cases
      case 1
      from dby_mono [OF 1] ymd2ord_in_year [OF v] ymd2ord_in_year [OF v'] eq
      show False by simp
    next
      case 2
      from dby_mono [OF 2] ymd2ord_in_year [OF v] ymd2ord_in_year [OF v'] eq
      show False by simp
    qed
  qed
  have m: "m = m'"
  proof (rule ccontr)
    assume "m \<noteq> m'"
    then consider "m + 1 \<le> m'" | "m' + 1 \<le> m" by linarith
    then show False
    proof cases
      case 1
      with v v' have "days_before_month y (m + 1) \<le> days_before_month y m'"
        by (intro dbm_mono) simp_all
      moreover have "days_before_month y (m + 1) = days_before_month y m + days_in_month y m"
        using 1 v v' by (intro dbm_next) simp_all
      ultimately show False using eq v v' by (simp add: ymd2ord_def y)
    next
      case 2
      with v v' have "days_before_month y (m' + 1) \<le> days_before_month y m"
        by (intro dbm_mono) simp_all
      moreover have "days_before_month y (m' + 1) = days_before_month y m' + days_in_month y m'"
        using 2 v v' by (intro dbm_next) simp_all
      ultimately show False using eq v v' by (simp add: ymd2ord_def y)
    qed
  qed
  from eq show ?thesis by (simp add: ymd2ord_def y m)
qed

lemma dby_1: "days_before_year 1 = 0"
  by (simp add: days_before_year_def)

lemma dby_10000: "days_before_year 10000 = 3652059"
  by (simp add: days_before_year_def)

lemma valid_dateD:
  assumes "valid_date dt"
  shows "1 \<le> year dt" "year dt \<le> 9999" "1 \<le> month dt" "month dt \<le> 12" "1 \<le> day dt"
    "day dt \<le> days_in_month (year dt) (month dt)"
  using assms
  by (auto simp: valid_date_def date_new_def MINYEAR_def MAXYEAR_def split: if_splits)

lemma toordinal_range:
  assumes "valid_date dt"
  shows "0 < toordinal dt" "toordinal dt \<le> MAXORDINAL"
proof -
  note v = valid_dateD [OF assms]
  from ymd2ord_in_year [OF v(3-6)] dby_mono [of 1 "year dt"] dby_mono [of "year dt + 1" 10000] v(1,2)
  show "0 < toordinal dt" "toordinal dt \<le> MAXORDINAL"
    by (simp_all add: toordinal_def dby_1 dby_10000 MAXORDINAL_def)
qed

lemma fromordinal_toordinal:
  assumes "valid_date dt"
  shows "fromordinal (toordinal dt) = Some dt"
proof -
  note v = valid_dateD [OF assms]
  obtain y m d where o: "ord2ymd (toordinal dt) = (y, m, d)" by (cases "ord2ymd (toordinal dt)")
  from ord2ymd_correct [OF o] have c: "1 \<le> m" "m \<le> 12" "1 \<le> d" "d \<le> days_in_month y m"
    and e: "ymd2ord y m d = ymd2ord (year dt) (month dt) (day dt)"
    by (simp_all add: toordinal_def)
  from ymd2ord_inj [OF c v(3-6) e] have "y = year dt" "m = month dt" "d = day dt" by simp_all
  with o assms show ?thesis by (simp add: fromordinal_def valid_date_def)
qed

lemma fromordinal_SomeD:
  assumes "fromordinal n = Some dt"
  shows "valid_date dt" and "toordinal dt = n"
proof -
  obtain y m d where o: "ord2ymd n = (y, m, d)" by (cases "ord2ymd n")
  with assms have dn: "date_new y m d = Some dt" by (simp add: fromordinal_def)
  then have dt: "dt = \<lparr>year = y, month = m, day = d\<rparr>"
    by (auto simp: date_new_def split: if_splits)
  from dn show "valid_date dt" by (simp add: valid_date_def dt)
  from ord2ymd_correct [OF o] show "toordinal dt = n" by (simp add: toordinal_def dt)
qed

lemma date_add_inverse:
  assumes "valid_date e" and "date_add e k = Some d"
  shows "date_add d (- k) = Some e"
proof -
  from assms(2) have f: "fromordinal (toordinal e + k) = Some d"
    by (simp add: date_add_def Let_def split: if_splits)
  from fromordinal_SomeD(2) [OF f] have "toordinal d + - k = toordinal e" by simp
  with toordinal_range [OF assms(1)] fromordinal_toordinal [OF assms(1)]
  show ?thesis by (simp add: date_add_def Let_def)
qed

lemma date_add_zero: "valid_date e \<Longrightarrow> date_add e 0 = Some e"
  using toordinal_range [of e] fromordinal_toordinal [of e]
  by (simp add: date_add_def Let_def)

section \<open>Reasoning about statements\<close>

lemma py_range_offsets: "py_range (- 1) 2 = [- 1, 0, 1]"
  by (simp add: py_range_def upto.simps)

lemma for_offset_unfold: "for_offset body = run [body (- 1), body 0, body 1]"
  by (simp add: for_offset_def py_range_offsets)

lemma date_new_SomeD: "date_new y m d = Some k \<Longrightarrow> k = \<lparr>year = y, month = m, day = d\<rparr>"
  by (auto simp: date_new_def split: if_splits)

lemma run_Cons_Some:
  "run (f # fs) s = Some s' \<longleftrightarrow> (\<exists>s1. f s = Some s1 \<and> run fs s1 = Some s')"
  by (auto split: option.splits)

subsection \<open>Statements as writers\<close>

lemma apply_writes_nil: "apply_writes s ([], []) = s"
  by (simp add: apply_writes_def)

lemma apply_writes_twice:
  "apply_writes (apply_writes s w) v = apply_writes s (fst w @ fst v, snd w @ snd v)"
  by (simp add: apply_writes_def)

lemma observed_apply_writes: "observed (apply_writes s w) = observed s"
  by (simp add: apply_writes_def)

lemma recorded_apply_writes: "recorded s (apply_writes s w) = fst w"
  by (simp add: apply_writes_def recorded_def)

lemma writes_mono: "writes B f \<Longrightarrow> A \<subseteq> B \<Longrightarrow> writes A f"
  unfolding writes_def by blast

lemma writes_cong: "writes B g \<Longrightarrow> (\<And>s. observed s \<in> B \<Longrightarrow> f s = g s) \<Longrightarrow> writes B f"
  unfolding writes_def by auto

lemma writes_pass: "writes B pass"
  unfolding writes_def pass_def
  by (rule exI [of _ "Some ([], [])"]) (simp add: apply_writes_nil)

lemma writes_warn: "writes B (warn msg)"
  unfolding writes_def warn_def
  by (rule exI [of _ "Some ([], [msg])"]) (simp add: apply_writes_def)

lemma writes_setitem: "writes B (setitem key name)"
  unfolding writes_def setitem_def
  by (rule exI [of _ "Some ([(key, name)], [])"]) (simp add: apply_writes_def map_add_upd_left)

lemma writes_raise: "writes B (\<lambda>s. None)"
  unfolding writes_def by (rule exI [of _ None]) simp

lemma writes_compute: "(\<And>v. x = Some v \<Longrightarrow> writes B (f v)) \<Longrightarrow> writes B (compute x f)"
proof (cases x)
  case None
  then have "compute x f = (\<lambda>s. None)" by (simp add: compute_def fun_eq_iff)
  then show ?thesis by (simp add: writes_raise)
next
  case (Some v)
  assume "\<And>v. x = Some v \<Longrightarrow> writes B (f v)"
  with Some have "writes B (f v)" by simp
  moreover from Some have "compute x f = f v" by (simp add: compute_def fun_eq_iff)
  ultimately show ?thesis by simp
qed

lemma writes_run_Nil: "writes B (run [])"
  using writes_pass [of B] by (simp add: writes_def pass_def)

lemma writes_run_Cons:
  assumes "writes B f" and "writes B (run fs)"
  shows "writes B (run (f # fs))"
proof -
  from assms(1) obtain r where r: "\<And>s. observed s \<in> B \<Longrightarrow> f s = map_option (apply_writes s) r"
    unfolding writes_def by blast
  from assms(2) obtain q where q: "\<And>s. observed s \<in> B \<Longrightarrow> run fs s = map_option (apply_writes s) q"
    unfolding writes_def by blast
  define t where "t = (case r of None \<Rightarrow> None
      | Some w \<Rightarrow> (case q of None \<Rightarrow> None | Some v \<Rightarrow> Some (fst w @ fst v, snd w @ snd v)))"
  have "run (f # fs) s = map_option (apply_writes s) t" if "observed s \<in> B" for s
    using r [OF that] q [of "apply_writes s w" for w] that
    by (auto simp: t_def observed_apply_writes apply_writes_twice split: option.splits)
  then show ?thesis unfolding writes_def by blast
qed

lemma writes_for_offset:
  "writes B (body (- 1)) \<Longrightarrow> writes B (body 0) \<Longrightarrow> writes B (body 1) \<Longrightarrow> writes B (for_offset body)"
  by (simp add: for_offset_unfold writes_run_Cons writes_run_Nil)

lemma writes_setitem_date: "writes B (setitem_date y m d name)"
  unfolding setitem_date_def by (intro writes_compute writes_setitem)

lemmas writes_intros = writes_pass writes_warn writes_setitem writes_setitem_date
  writes_compute writes_run_Nil writes_run_Cons writes_for_offset

lemma writes_lunar_body: "writes B (lunar_body name lm ld c Y k)"
  unfolding lunar_body_def by (intro writes_intros) (simp add: writes_intros)

lemma writes_easter_body: "writes B (easter_body name n c Y k)"
  unfolding easter_body_def by (intro writes_intros) (simp add: writes_intros)

lemma writes_easter_sunday_body: "writes B (easter_sunday_body name c Y k)"
  unfolding easter_sunday_body_def by (intro writes_intros) (simp add: writes_intros)

lemma writes_hijri_body: "writes B (hijri_body name am ad sh hmo hda c Y k)"
  unfolding hijri_body_def by (intro writes_intros) (simp add: writes_intros split_beta)

lemma writes_hijri2_body: "writes B (hijri2_body name am ad hmo hda c Y k)"
  unfolding hijri2_body_def by (intro writes_intros) (simp add: writes_intros split_beta)

lemma writes_hijri3_body: "writes B (hijri3_body name am ad hmo hda c Y k)"
  unfolding hijri3_body_def by (intro writes_intros) (simp add: writes_intros split_beta)

lemma writes_ID_eid_al_fitr_body: "writes B (ID_eid_al_fitr_body c Y k)"
  unfolding ID_eid_al_fitr_body_def by (intro writes_intros) (simp add: writes_intros split_beta)

lemma writes_PH_eid_al_fitr_body: "writes B (PH_eid_al_fitr_body c Y k)"
  unfolding PH_eid_al_fitr_body_def
  by (intro writes_intros) (auto simp: split_beta intro!: writes_intros)

lemma writes_orthodox_offset: "writes B (orthodox_offset name n c Y)"
  unfolding orthodox_offset_def by (intro writes_intros)

lemma writes_orthodox_sunday: "writes B (orthodox_sunday name c Y)"
  unfolding orthodox_sunday_def by (intro writes_intros)

lemma writes_ID_nyepi: "writes B (ID_nyepi Y)"
  unfolding ID_nyepi_def by (simp add: writes_intros)

lemma writes_IN_diwali_holi: "writes B (IN_diwali_holi Y)"
  unfolding IN_diwali_holi_def diwali_holi_def by (simp add: writes_intros)

lemma writes_TH_magha_pujab: "writes B (TH_magha_pujab Y)"
  unfolding TH_magha_pujab_def by (simp add: writes_intros)

lemma writes_TH_chakri: "writes B (TH_chakri Y)"
  unfolding TH_chakri_def by (intro writes_intros) (simp add: writes_intros Let_def)

lemma writes_TH_asalha_puja: "writes B (TH_asalha_puja Y)"
  unfolding TH_asalha_puja_def by (simp add: writes_intros)

lemma writes_TH_vassa: "writes B (TH_vassa Y)"
  unfolding TH_vassa_def by (simp add: writes_intros)

lemma writes_ID_new_year: "writes {b} (ID_new_year Y)"
proof (cases b)
  case True
  show ?thesis
    by (rule writes_cong [OF writes_setitem_date [of _ Y 1 1 "''New Year's Day''"]])
       (simp add: ID_new_year_def True)
next
  case False
  have "writes {b} (compute (date_new Y 1 1)
          (\<lambda>jan1. if weekday jan1 \<in> set WEEKEND then pass
                   else setitem_date Y 1 1 ''New Year's Day''))"
    by (intro writes_intros) (simp add: writes_intros)
  then show ?thesis
    by (rule writes_cong) (simp add: ID_new_year_def False)
qed

lemmas writes_blocks = writes_lunar_body writes_easter_body writes_easter_sunday_body
  writes_hijri_body writes_hijri2_body writes_hijri3_body writes_ID_eid_al_fitr_body
  writes_PH_eid_al_fitr_body writes_orthodox_offset writes_orthodox_sunday writes_ID_nyepi
  writes_IN_diwali_holi writes_TH_magha_pujab writes_TH_chakri writes_TH_asalha_puja
  writes_TH_vassa

lemma writes_populate: "writes {b} (populate cls c Y)"
  by (cases cls)
     (simp_all add: Indonesia_populate_def India_populate_def Kyrgyzstan_populate_def
        Thailand_populate_def Philippines_populate_def Pakistan_populate_def
        Russia_populate_def Belarus_populate_def Georgia_populate_def
        writes_intros writes_blocks writes_ID_new_year)


subsection \<open>The assignments a statement makes\<close>

lemma effectD:
  assumes "effect B P f" and "f s = Some s'" and "observed s \<in> B"
  shows "P (recorded s s')" and "assigned s' = assigned s @ recorded s s'"
    and "items s' = items s ++ map_of (rev (recorded s s'))" and "observed s' = observed s"
proof -
  from assms obtain new where n: "assigned s' = assigned s @ new"
      "items s' = items s ++ map_of (rev new)" "observed s' = observed s" "P new"
    unfolding effect_def by blast
  then have "recorded s s' = new" by (simp add: recorded_def)
  with n show "P (recorded s s')" and "assigned s' = assigned s @ recorded s s'"
    and "items s' = items s ++ map_of (rev (recorded s s'))" and "observed s' = observed s"
    by simp_all
qed

lemma effect_mono: "effect B P f \<Longrightarrow> (\<And>new. P new \<Longrightarrow> Q new) \<Longrightarrow> effect B Q f"
  unfolding effect_def by blast

lemma effect_pass: "P [] \<Longrightarrow> effect B P pass"
  by (simp add: effect_def pass_def)

lemma effect_warn: "P [] \<Longrightarrow> effect B P (warn msg)"
  by (auto simp: effect_def warn_def)

lemma effect_setitem: "P [(key, name)] \<Longrightarrow> effect B P (setitem key name)"
  by (auto simp: effect_def setitem_def map_add_upd_left)

lemma effect_compute: "(\<And>v. x = Some v \<Longrightarrow> effect B P (f v)) \<Longrightarrow> effect B P (compute x f)"
  by (cases x) (auto simp: effect_def compute_def)

lemma effect_setitem_date:
  "(date_new y m d \<noteq> None \<Longrightarrow> P [(\<lparr>year = y, month = m, day = d\<rparr>, name)])
   \<Longrightarrow> effect B P (setitem_date y m d name)"
  unfolding setitem_date_def
  by (rule effect_compute, rule effect_setitem) (auto dest: date_new_SomeD)

lemma effect_run_Nil: "P [] \<Longrightarrow> effect B P (run [])"
  by (simp add: effect_def)

lemma effect_run_Cons:
  assumes "effect B P f" and "effect B R (run fs)" and "\<And>a b. P a \<Longrightarrow> R b \<Longrightarrow> T (a @ b)"
  shows "effect B T (run (f # fs))"
  unfolding effect_def
proof (intro allI impI)
  fix s s' assume B: "observed s \<in> B" and "run (f # fs) s = Some s'"
  then obtain s1 where 1: "f s = Some s1" and 2: "run fs s1 = Some s'"
    by (auto split: option.splits)
  note a = effectD [OF assms(1) 1 B]
  from a(4) B have "observed s1 \<in> B" by simp
  note b = effectD [OF assms(2) 2 this]
  show "\<exists>new. assigned s' = assigned s @ new \<and> items s' = items s ++ map_of (rev new)
               \<and> observed s' = observed s \<and> T new"
    by (rule exI [of _ "recorded s s1 @ recorded s1 s'"])
       (use a b assms(3) in \<open>simp add: map_of_append\<close>)
qed

lemma emits_pass: "emits B Q pass"
  by (simp add: emits_def effect_pass)

lemma emits_warn: "emits B Q (warn msg)"
  by (simp add: emits_def effect_warn)

lemma emits_setitem: "Q key name \<Longrightarrow> emits B Q (setitem key name)"
  by (simp add: emits_def effect_setitem)

lemma emits_compute: "(\<And>v. x = Some v \<Longrightarrow> emits B Q (f v)) \<Longrightarrow> emits B Q (compute x f)"
  unfolding emits_def by (rule effect_compute)

lemma emits_setitem_date:
  "(date_new y m d \<noteq> None \<Longrightarrow> Q \<lparr>year = y, month = m, day = d\<rparr> name)
   \<Longrightarrow> emits B Q (setitem_date y m d name)"
  unfolding emits_def by (rule effect_setitem_date) simp

lemma emits_run_Nil: "emits B Q (run [])"
  by (simp add: emits_def effect_run_Nil)

lemma emits_run_Cons: "emits B Q f \<Longrightarrow> emits B Q (run fs) \<Longrightarrow> emits B Q (run (f # fs))"
  unfolding emits_def by (erule effect_run_Cons) simp_all

lemma emits_for_offset:
  "emits B Q (body (- 1)) \<Longrightarrow> emits B Q (body 0) \<Longrightarrow> emits B Q (body 1)
   \<Longrightarrow> emits B Q (for_offset body)"
  by (simp add: for_offset_unfold emits_run_Cons emits_run_Nil)

lemma emits_mono: "emits B P f \<Longrightarrow> (\<And>d n. P d n \<Longrightarrow> Q d n) \<Longrightarrow> emits B Q f"
  unfolding emits_def by (erule effect_mono) (auto simp: list_all_iff)

lemma emitsD:
  "emits B Q f \<Longrightarrow> f s = Some s' \<Longrightarrow> observed s \<in> B \<Longrightarrow> (d, n) \<in> set (recorded s s') \<Longrightarrow> Q d n"
  unfolding emits_def by (drule (2) effectD(1)) (auto simp: list_all_iff)

lemma emits_effect_eq:
  "effect B (\<lambda>new. new = [(k, name)]) f \<Longrightarrow> Q k name \<Longrightarrow> emits B Q f"
  unfolding emits_def by (erule effect_mono) simp

lemma emits_effect_nil: "effect B (\<lambda>new. new = []) f \<Longrightarrow> emits B Q f"
  unfolding emits_def by (erule effect_mono) simp

lemmas emits_intros = emits_pass emits_warn emits_setitem emits_setitem_date emits_compute
  emits_run_Nil emits_run_Cons emits_for_offset

lemma emits_run_all: "(\<And>g. g \<in> set fs \<Longrightarrow> emits B Q g) \<Longrightarrow> emits B Q (run fs)"
  by (induction fs) (simp_all add: emits_run_Nil emits_run_Cons)

text \<open>An assignment made by one statement of a sequence is made by the sequence.\<close>

lemma records_member:
  assumes "effect B (\<lambda>new. e \<in> set new) f" and "f \<in> set fs"
    and "\<And>g. g \<in> set fs \<Longrightarrow> emits B (\<lambda>d n. True) g"
  shows "effect B (\<lambda>new. e \<in> set new) (run fs)"
  using assms(2,3)
proof (induction fs)
  case Nil
  then show ?case by simp
next
  case (Cons g gs)
  have all: "emits B (\<lambda>d n. True) (run gs)"
    by (rule emits_run_all) (simp add: Cons.prems(2))
  show ?case
  proof (cases "f = g")
    case True
    show ?thesis
      by (rule effect_run_Cons [OF assms(1) [unfolded True] all [unfolded emits_def]]) simp
  next
    case False
    with Cons.prems have "f \<in> set gs" by simp
    then have later: "effect B (\<lambda>new. e \<in> set new) (run gs)"
      using Cons.IH Cons.prems(2) by simp
    have "emits B (\<lambda>d n. True) g" using Cons.prems(2) by simp
    then have "effect B (\<lambda>new. True) g"
      unfolding emits_def by (rule effect_mono) simp
    then show ?thesis
      by (rule effect_run_Cons [OF _ later]) simp
  qed
qed

text \<open>A statement that always makes the assignments \<open>xs\<close>, and those only.\<close>

lemma effect_lookup:
  assumes "emits B (\<lambda>d n. True) f" and "\<And>s. map_option (recorded s) (f s) = Some xs"
  shows "effect B (\<lambda>new. new = xs) f"
  unfolding effect_def
proof (intro allI impI)
  fix s s' assume B: "observed s \<in> B" and f: "f s = Some s'"
  note a = effectD [OF assms(1) [unfolded emits_def] f B]
  from assms(2) [of s] f have "recorded s s' = xs" by simp
  with a(2-4) show "\<exists>new. assigned s' = assigned s @ new \<and> items s' = items s ++ map_of (rev new)
               \<and> observed s' = observed s \<and> new = xs"
    by simp
qed

lemma emits_effect_list:
  "effect B (\<lambda>new. new = xs) f \<Longrightarrow> (\<And>d n. (d, n) \<in> set xs \<Longrightarrow> Q d n) \<Longrightarrow> emits B Q f"
  unfolding emits_def by (erule effect_mono) (auto simp: list_all_iff)

lemma records_subset:
  assumes "effect B (\<lambda>new. new = xs) f" and "f \<in> set fs"
    and "\<And>g. g \<in> set fs \<Longrightarrow> emits B (\<lambda>d n. True) g"
  shows "effect B (\<lambda>new. set xs \<subseteq> set new) (run fs)"
  unfolding effect_def
proof (intro allI impI)
  fix s s' assume B: "observed s \<in> B" and r: "run fs s = Some s'"
  have all: "emits B (\<lambda>d n. True) (run fs)"
    by (rule emits_run_all) (rule assms(3))
  note a = effectD [OF all [unfolded emits_def] r B]
  have "set xs \<subseteq> set (recorded s s')"
  proof
    fix e assume "e \<in> set xs"
    then have "effect B (\<lambda>new. e \<in> set new) f"
      by (intro effect_mono [OF assms(1)]) simp
    from effectD(1) [OF records_member [OF this assms(2,3)] r B]
    show "e \<in> set (recorded s s')" .
  qed
  with a(2-4) show "\<exists>new. assigned s' = assigned s @ new \<and> items s' = items s ++ map_of (rev new)
               \<and> observed s' = observed s \<and> set xs \<subseteq> set new"
    by blast
qed

text \<open>The dictionary after a list of assignments: its keys, and the value under a key
  that was assigned one name only.\<close>

lemma key_of_recorded:
  assumes "items s' = items s ++ map_of (rev new)" and "(d, n) \<in> set new"
  shows "d \<in> dom (items s')"
proof -
  from assms(2) have "d \<in> fst ` set (rev new)" by force
  then have "d \<in> dom (map_of (rev new))" by (simp only: dom_map_of_conv_image_fst)
  then show ?thesis by (simp add: assms(1))
qed

lemma map_of_rev_unique:
  assumes "(k, v) \<in> set xs" and "\<And>v'. (k, v') \<in> set xs \<Longrightarrow> v' = v"
  shows "map_of (rev xs) k = Some v"
proof -
  from assms(1) have "(k, v) \<in> set (rev xs)" by simp
  then obtain v' where v': "map_of (rev xs) k = Some v'"
    by (blast dest: weak_map_of_SomeI)
  then have "(k, v') \<in> set xs" by (auto dest: map_of_SomeD)
  with assms(2) v' show ?thesis by simp
qed

lemma items_of_unique:
  assumes e3: "items s' = items s ++ map_of (rev new)"
    and m: "(k, v) \<in> set new"
    and u: "\<forall>n. (k, n) \<in> set new \<longrightarrow> n = v"
  shows "items s' k = Some v"
proof -
  have "map_of (rev new) k = Some v"
  proof (rule map_of_rev_unique [OF m])
    fix v' assume "(k, v') \<in> set new"
    with u show "v' = v" by blast
  qed
  then have "(items s ++ map_of (rev new)) k = Some v"
    by (rule map_add_find_right)
  then show ?thesis by (simp only: e3)
qed

subsection \<open>The loops and tables, one by one\<close>

lemma emits_lunar_body:
  "(\<And>ds. Lunar2Solar c (Y + k) lm ld = Some ds \<Longrightarrow> year ds = Y \<Longrightarrow> Q ds name)
   \<Longrightarrow> emits B Q (lunar_body name lm ld c Y k)"
  unfolding lunar_body_def by (intro emits_intros) (simp add: emits_intros)

lemma emits_easter_body:
  "(\<And>e ds. easter c (Y + k) EASTER_WESTERN = Some e \<Longrightarrow> date_add e n = Some ds
      \<Longrightarrow> year ds = Y \<Longrightarrow> Q ds name)
   \<Longrightarrow> emits B Q (easter_body name n c Y k)"
  unfolding easter_body_def by (intro emits_intros) (simp add: emits_intros)

lemma emits_easter_sunday_body:
  "(\<And>ds. easter c (Y + k) EASTER_WESTERN = Some ds \<Longrightarrow> year ds = Y \<Longrightarrow> Q ds name)
   \<Longrightarrow> emits B Q (easter_sunday_body name c Y k)"
  unfolding easter_sunday_body_def by (intro emits_intros) (simp add: emits_intros)

lemma emits_hijri_body:
  "(\<And>iy im idy m d. from_gregorian c (Y + k) am ad = Some (iy, im, idy)
      \<Longrightarrow> to_gregorian c (iy + sh) hmo hda = Some (Y, m, d)
      \<Longrightarrow> Q \<lparr>year = Y, month = m, day = d\<rparr> name)
   \<Longrightarrow> emits B Q (hijri_body name am ad sh hmo hda c Y k)"
  unfolding hijri_body_def
  by (intro emits_intros) (auto intro!: emits_intros)

lemma emits_if_pass:
  "(b \<Longrightarrow> emits B Q f) \<Longrightarrow> emits B Q (if b then f else pass)"
  by (simp add: emits_pass)

lemma emits_hijri2_body:
  assumes "\<And>iy im idy i m d. from_gregorian c (Y + k) am ad = Some (iy, im, idy)
      \<Longrightarrow> i \<in> {0, 1} \<Longrightarrow> to_gregorian c iy hmo (hda + i) = Some (Y, m, d)
      \<Longrightarrow> Q \<lparr>year = Y, month = m, day = d\<rparr> name"
  shows "emits B Q (hijri2_body name am ad hmo hda c Y k)"
  unfolding hijri2_body_def
proof (intro emits_compute, clarify, intro emits_compute, clarify, intro emits_compute, clarify)
  fix iy im idy y1 m1 d1 y2 m2 d2
  assume f: "from_gregorian c (Y + k) am ad = Some (iy, im, idy)"
    and 1: "to_gregorian c iy hmo hda = Some (y1, m1, d1)"
    and 2: "to_gregorian c iy hmo (hda + 1) = Some (y2, m2, d2)"
  show "emits B Q (run [if y1 = Y then setitem_date y1 m1 d1 name else pass,
                        if y2 = Y then setitem_date y2 m2 d2 name else pass])"
    using assms [OF f, of 0 m1 d1] assms [OF f, of 1 m2 d2] 1 2
    by (intro emits_run_Cons emits_run_Nil emits_if_pass emits_setitem_date) auto
qed

lemma emits_hijri3_body:
  assumes "\<And>iy im idy i m d. from_gregorian c (Y + k) am ad = Some (iy, im, idy)
      \<Longrightarrow> i \<in> {0, 1, 2} \<Longrightarrow> to_gregorian c iy hmo (hda + i) = Some (Y, m, d)
      \<Longrightarrow> Q \<lparr>year = Y, month = m, day = d\<rparr> name"
  shows "emits B Q (hijri3_body name am ad hmo hda c Y k)"
  unfolding hijri3_body_def
proof (intro emits_compute, clarify, intro emits_compute, clarify, intro emits_compute, clarify,
    intro emits_compute, clarify)
  fix iy im idy y1 m1 d1 y2 m2 d2 y3 m3 d3
  assume f: "from_gregorian c (Y + k) am ad = Some (iy, im, idy)"
    and 1: "to_gregorian c iy hmo hda = Some (y1, m1, d1)"
    and 2: "to_gregorian c iy hmo (hda + 1) = Some (y2, m2, d2)"
    and 3: "to_gregorian c iy hmo (hda + 2) = Some (y3, m3, d3)"
  show "emits B Q (run [if y1 = Y then setitem_date y1 m1 d1 name else pass,
                        if y2 = Y then setitem_date y2 m2 d2 name else pass,
                        if y3 = Y then setitem_date y3 m3 d3 name else pass])"
    using assms [OF f, of 0 m1 d1] assms [OF f, of 1 m2 d2] assms [OF f, of 2 m3 d3] 1 2 3
    by (intro emits_run_Cons emits_run_Nil emits_if_pass emits_setitem_date) auto
qed

lemma emits_ID_eid_al_fitr_body:
  assumes "\<And>iy im idy y2 m2 d2. from_gregorian c (Y + k) 6 15 = Some (iy, im, idy)
      \<Longrightarrow> to_gregorian c iy 10 2 = Some (y2, m2, d2)
      \<Longrightarrow> Q \<lparr>year = Y, month = m2, day = d2\<rparr> ''Eid al-Fitr''"
  shows "emits B Q (ID_eid_al_fitr_body c Y k)"
  unfolding ID_eid_al_fitr_body_def
proof (intro emits_compute, clarify, intro emits_compute, clarify, intro emits_compute, clarify)
  fix iy im idy y1 m1 d1 y2 m2 d2
  assume f: "from_gregorian c (Y + k) 6 15 = Some (iy, im, idy)"
    and 2: "to_gregorian c iy 10 2 = Some (y2, m2, d2)"
  show "emits B Q (run [if y1 = Y then setitem_date y1 m2 d2 ''Eid al-Fitr'' else pass,
                        if y2 = Y then setitem_date y2 m2 d2 ''Eid al-Fitr'' else pass])"
    using assms [OF f 2]
    by (intro emits_run_Cons emits_run_Nil emits_if_pass emits_setitem_date) auto
qed

lemma emits_PH_eid_al_fitr_body:
  assumes "\<And>iy im idy y m d dt ds. from_gregorian c (Y + k) 6 15 = Some (iy, im, idy)
      \<Longrightarrow> to_gregorian c iy 10 1 = Some (y, m, d) \<Longrightarrow> date_new y m d = Some dt
      \<Longrightarrow> date_add dt (- 1) = Some ds \<Longrightarrow> year ds = Y \<Longrightarrow> Q ds ''Eid al-Fitr''"
  shows "emits B Q (PH_eid_al_fitr_body c Y k)"
  unfolding PH_eid_al_fitr_body_def
proof (intro emits_compute, clarify, intro emits_compute, clarify, intro emits_compute)
  fix iy im idy y m d dt ds
  assume "from_gregorian c (Y + k) 6 15 = Some (iy, im, idy)"
    "to_gregorian c iy 10 1 = Some (y, m, d)" "date_new y m d = Some dt"
    "date_add dt (- 1) = Some ds"
  from assms [OF this]
  show "emits B Q (if year ds = Y then setitem ds ''Eid al-Fitr'' else pass)"
    by (intro emits_if_pass emits_setitem)
qed

lemma emits_orthodox_offset:
  "(\<And>e key. easter c Y EASTER_ORTHODOX = Some e \<Longrightarrow> date_add e n = Some key \<Longrightarrow> Q key name)
   \<Longrightarrow> emits B Q (orthodox_offset name n c Y)"
  unfolding orthodox_offset_def by (intro emits_intros) simp

lemma emits_orthodox_sunday:
  "(\<And>key. easter c Y EASTER_ORTHODOX = Some key \<Longrightarrow> Q key name)
   \<Longrightarrow> emits B Q (orthodox_sunday name c Y)"
  unfolding orthodox_sunday_def by (intro emits_intros) simp

lemma emits_ID_new_year:
  "Q \<lparr>year = Y, month = 1, day = 1\<rparr> ''New Year's Day'' \<Longrightarrow> emits B Q (ID_new_year Y)"
  unfolding emits_def effect_def
proof (intro allI impI)
  fix s s'
  assume Q: "Q \<lparr>year = Y, month = 1, day = 1\<rparr> ''New Year's Day''"
    and r: "ID_new_year Y s = Some s'"
  have e: "effect UNIV (list_all (\<lambda>(d, n). Q d n)) f"
    if "f = pass \<or> f = setitem_date Y 1 1 ''New Year's Day''" for f
    using that Q by (auto intro!: effect_pass effect_setitem_date)
  from r obtain f where "f = pass \<or> f = setitem_date Y 1 1 ''New Year's Day''" and "f s = Some s'"
    by (auto simp: ID_new_year_def compute_def split: if_splits option.splits)
  with e show "\<exists>new. assigned s' = assigned s @ new \<and> items s' = items s ++ map_of (rev new)
        \<and> observed s' = observed s \<and> list_all (\<lambda>(d, n). Q d n) new"
    unfolding effect_def by blast
qed

lemma emits_ID_nyepi:
  "(\<And>m d. Q \<lparr>year = Y, month = m, day = d\<rparr> ''Day of Silence/ Nyepi'') \<Longrightarrow> emits B Q (ID_nyepi Y)"
  unfolding ID_nyepi_def by (auto intro!: emits_intros)

lemma emits_diwali_holi:
  "(\<And>m d. Q \<lparr>year = Y, month = m, day = d\<rparr> ''Diwali'') \<Longrightarrow>
   (\<And>m d. Q \<lparr>year = Y, month = m, day = d\<rparr> ''Holi'') \<Longrightarrow> emits B Q (diwali_holi Y m1 d1 m2 d2)"
  unfolding diwali_holi_def by (auto intro!: emits_intros)

lemma emits_IN_diwali_holi:
  "(\<And>m d. Q \<lparr>year = Y, month = m, day = d\<rparr> ''Diwali'') \<Longrightarrow>
   (\<And>m d. Q \<lparr>year = Y, month = m, day = d\<rparr> ''Holi'') \<Longrightarrow> emits B Q (IN_diwali_holi Y)"
  unfolding IN_diwali_holi_def
  by (intro emits_run_Cons emits_run_Nil emits_warn) (auto intro!: emits_diwali_holi emits_pass)

lemma emits_TH_magha_pujab:
  "(\<And>m d. Q \<lparr>year = Y, month = m, day = d\<rparr> ''Magha Pujab/Makha Bucha'')
   \<Longrightarrow> emits B Q (TH_magha_pujab Y)"
  unfolding TH_magha_pujab_def by (auto intro!: emits_intros)

lemma emits_TH_chakri:
  "(\<And>d. Q \<lparr>year = Y, month = 4, day = d\<rparr> ''Chakri Memorial Day'') \<Longrightarrow> emits B Q (TH_chakri Y)"
  unfolding TH_chakri_def by (intro emits_intros) (simp add: emits_intros Let_def)

lemma emits_TH_asalha_puja:
  "(\<And>m d. Q \<lparr>year = Y, month = m, day = d\<rparr> ''Asalha Puja'') \<Longrightarrow> emits B Q (TH_asalha_puja Y)"
  unfolding TH_asalha_puja_def by (auto intro!: emits_intros)

lemma emits_TH_vassa:
  "(\<And>m d. Q \<lparr>year = Y, month = m, day = d\<rparr> ''Beginning of Vassa'') \<Longrightarrow> emits B Q (TH_vassa Y)"
  unfolding TH_vassa_def by (auto intro!: emits_intros)



lemmas emits_blocks = emits_lunar_body emits_easter_body emits_easter_sunday_body
  emits_hijri_body emits_hijri2_body emits_hijri3_body emits_ID_eid_al_fitr_body
  emits_PH_eid_al_fitr_body emits_orthodox_offset emits_orthodox_sunday emits_ID_new_year
  emits_ID_nyepi emits_IN_diwali_holi emits_TH_magha_pujab emits_TH_chakri
  emits_TH_asalha_puja emits_TH_vassa

lemmas emits_seq = emits_run_Cons emits_run_Nil emits_for_offset emits_if_pass
  emits_setitem_date emits_pass

section \<open>The year guard of the foreign-calendar loops\<close>

lemma emits_year_Indonesia: "emits B (\<lambda>d n. year d = Y) (Indonesia_populate c Y)"
  unfolding Indonesia_populate_def by (intro emits_seq emits_blocks) simp_all

lemma emits_year_India: "emits B (\<lambda>d n. year d = Y) (India_populate c Y)"
  unfolding India_populate_def by (intro emits_seq emits_blocks) simp_all

lemma emits_year_Thailand: "emits B (\<lambda>d n. year d = Y) (Thailand_populate c Y)"
  unfolding Thailand_populate_def by (intro emits_seq emits_blocks) simp_all

lemma emits_year_Philippines: "emits B (\<lambda>d n. year d = Y) (Philippines_populate c Y)"
  unfolding Philippines_populate_def by (intro emits_seq emits_blocks) simp_all

lemma emits_year_Pakistan: "emits B (\<lambda>d n. year d = Y) (Pakistan_populate c Y)"
  unfolding Pakistan_populate_def by (intro emits_seq emits_blocks) simp_all

text \<open>
  Claim C2.  In the five classes that resolve lunar or Hijri holidays, every date a
  call of populate for the year \<open>Y\<close> assigns lies in the year \<open>Y\<close>, whatever the
  converters return: each loop assigns under its guard \<^verbatim>\<open>y == year\<close> (or
  \<^verbatim>\<open>ds.year == year\<close>) only, and the other assignments of these classes are to
  dates of the year itself.
\<close>

theorem foreign_calendar_dates_in_year:
  assumes "cls \<in> {Indonesia, India, Thailand, Philippines, Pakistan}"
    and "populate cls c Y s = Some s'"
    and "(d, n) \<in> set (recorded s s')"
  shows "year d = Y"
proof -
  have "emits UNIV (\<lambda>d n. year d = Y) (populate cls c Y)"
    using assms(1)
    by (auto simp: emits_year_Indonesia emits_year_India emits_year_Thailand
        emits_year_Philippines emits_year_Pakistan)
  from emitsD [OF this assms(2) _ assms(3)] show ?thesis by simp
qed

lemma Philippines_2019_returns:
  "Philippines_populate reference 2019 (HolidayBase_init True) \<noteq> None"
  by code_simp

lemma Philippines_2019_eid:
  "(\<lparr>year = 2019, month = 6, day = 4\<rparr>, ''Eid al-Fitr'')
     \<in> set (recorded (HolidayBase_init True)
              (the (Philippines_populate reference 2019 (HolidayBase_init True))))"
  by code_simp

theorem foreign_calendar_dates_in_year_witness:
  "Philippines \<in> {Indonesia, India, Thailand, Philippines, Pakistan} \<and>
   populate Philippines reference 2019 (HolidayBase_init True) \<noteq> None \<and>
   (\<lparr>year = 2019, month = 6, day = 4\<rparr>, ''Eid al-Fitr'')
     \<in> set (recorded (HolidayBase_init True)
              (the (populate Philippines reference 2019 (HolidayBase_init True)))) \<and>
   year \<lparr>year = 2019, month = 6, day = 4\<rparr> = 2019"
proof -
  obtain s' where s': "populate Philippines reference 2019 (HolidayBase_init True) = Some s'"
    using Philippines_2019_returns by auto
  have m: "(\<lparr>year = 2019, month = 6, day = 4\<rparr>, ''Eid al-Fitr'')
      \<in> set (recorded (HolidayBase_init True) s')"
    using Philippines_2019_eid s' by simp
  have "Philippines \<in> {Indonesia, India, Thailand, Philippines, Pakistan}" by simp
  from foreign_calendar_dates_in_year [OF this s' m] m s' show ?thesis by simp
qed

section \<open>Repeated population\<close>

text \<open>
  Claim C4.  For each of the nine classes, a second call of populate for the same
  year, on the instance the first call returned, returns as well and leaves the
  mapping from dates to names as the first call left it.  The collaborators are
  functions, hence pure.
\<close>

theorem populate_idempotent:
  assumes "populate cls c Y s = Some s1"
  shows "\<exists>s2. populate cls c Y s1 = Some s2 \<and> items s2 = items s1"
proof -
  from writes_populate [of "observed s" cls c Y]
  obtain r where r: "\<And>t. observed t = observed s \<Longrightarrow>
      populate cls c Y t = map_option (apply_writes t) r"
    unfolding writes_def by auto
  from r [of s] assms have "map_option (apply_writes s) r = Some s1" by simp
  then obtain w where w: "r = Some w" and s1: "s1 = apply_writes s w"
    by (cases r) auto
  have "observed s1 = observed s" by (simp add: s1 observed_apply_writes)
  from r [OF this] have "populate cls c Y s1 = Some (apply_writes s1 w)" by (simp add: w)
  moreover have "items (apply_writes s1 w) = items s1"
    by (simp add: s1 apply_writes_def fun_eq_iff map_add_def split: option.splits)
  ultimately show ?thesis by blast
qed

lemma Indonesia_2019_returns:
  "Indonesia_populate reference 2019 (HolidayBase_init True) \<noteq> None"
  by code_simp

theorem populate_idempotent_witness:
  "populate Indonesia reference 2019 (HolidayBase_init True) \<noteq> None \<and>
   (\<exists>s2. populate Indonesia reference 2019
            (the (populate Indonesia reference 2019 (HolidayBase_init True))) = Some s2 \<and>
          items s2 = items (the (populate Indonesia reference 2019 (HolidayBase_init True))))"
proof -
  obtain s1 where s1: "populate Indonesia reference 2019 (HolidayBase_init True) = Some s1"
    using Indonesia_2019_returns by auto
  from populate_idempotent [OF s1] s1 show ?thesis by simp
qed


lemma effect_orthodox_offset:
  "easter c Y EASTER_ORTHODOX = Some e \<Longrightarrow> date_add e n = Some d
   \<Longrightarrow> effect B (\<lambda>new. new = [(d, name)]) (orthodox_offset name n c Y)"
  unfolding orthodox_offset_def
  by (intro effect_compute effect_setitem) simp

lemma emits_True_blocks:
  "emits B (\<lambda>d n. True) (for_offset (lunar_body name lm ld c Y))"
  "emits B (\<lambda>d n. True) (for_offset (easter_body name k c Y))"
  "emits B (\<lambda>d n. True) (for_offset (easter_sunday_body name c Y))"
  "emits B (\<lambda>d n. True) (for_offset (hijri_body name am ad sh hmo hda c Y))"
  "emits B (\<lambda>d n. True) (for_offset (hijri2_body name am ad hmo hda c Y))"
  "emits B (\<lambda>d n. True) (for_offset (hijri3_body name am ad hmo hda c Y))"
  "emits B (\<lambda>d n. True) (for_offset (ID_eid_al_fitr_body c Y))"
  "emits B (\<lambda>d n. True) (for_offset (PH_eid_al_fitr_body c Y))"
  "emits B (\<lambda>d n. True) (orthodox_offset name k c Y)"
  "emits B (\<lambda>d n. True) (orthodox_sunday name c Y)"
  "emits B (\<lambda>d n. True) (ID_new_year Y)"
  "emits B (\<lambda>d n. True) (ID_nyepi Y)"
  "emits B (\<lambda>d n. True) (IN_diwali_holi Y)"
  "emits B (\<lambda>d n. True) (TH_magha_pujab Y)"
  "emits B (\<lambda>d n. True) (TH_chakri Y)"
  "emits B (\<lambda>d n. True) (TH_asalha_puja Y)"
  "emits B (\<lambda>d n. True) (TH_vassa Y)"
  "emits B (\<lambda>d n. True) (setitem_date Y m dd name)"
  "emits B (\<lambda>d n. True) pass"
  by (intro emits_seq emits_blocks; simp)+

section \<open>Chakri Memorial Day\<close>

lemma effect_TH_chakri:
  "effect B (\<lambda>new. new = [(chakri_date Y, ''Chakri Memorial Day'')]) (TH_chakri Y)"
  unfolding TH_chakri_def
  by (rule effect_compute)
     (auto simp: Let_def chakri_date_def SAT_def SUN_def intro!: effect_setitem_date
           dest!: date_new_SomeD)

lemma emits_Thailand_chakri:
  "emits B (\<lambda>d n. n = ''Chakri Memorial Day'' \<longrightarrow> d = chakri_date Y) (Thailand_populate c Y)"
  unfolding Thailand_populate_def
  by (intro emits_seq emits_lunar_body emits_TH_magha_pujab emits_TH_asalha_puja emits_TH_vassa
        emits_effect_eq [OF effect_TH_chakri])
     simp_all

lemma records_Thailand_chakri:
  "effect B (\<lambda>new. (chakri_date Y, ''Chakri Memorial Day'') \<in> set new) (Thailand_populate c Y)"
  unfolding Thailand_populate_def
  by (rule records_member [where f = "TH_chakri Y"])
     (auto intro: effect_mono [OF effect_TH_chakri] simp: emits_True_blocks)

text \<open>
  Claim C10.  Whenever Thailand's populate returns for the year \<open>Y\<close>, the one date it
  assigns the name Chakri Memorial Day is April 8 when April 6 of \<open>Y\<close> is a Saturday,
  April 7 when it is a Sunday and April 6 otherwise.  The statement holds for every
  starting instance, so for both values of the \<open>observed\<close> flag.
\<close>

theorem chakri_memorial_day:
  assumes "Thailand_populate c Y s = Some s'"
  shows "(d, ''Chakri Memorial Day'') \<in> set (recorded s s') \<longleftrightarrow> d = chakri_date Y"
  using emitsD [OF emits_Thailand_chakri assms, of UNIV d "''Chakri Memorial Day''"]
    effectD(1) [OF records_Thailand_chakri assms, of UNIV]
  by auto

lemma Thailand_2019_returns:
  "Thailand_populate reference 2019 (HolidayBase_init False) \<noteq> None"
  by code_simp

lemma chakri_date_2019:
  "weekday \<lparr>year = 2019, month = 4, day = 6\<rparr> = SAT \<and>
   chakri_date 2019 = \<lparr>year = 2019, month = 4, day = 8\<rparr>"
  by code_simp

theorem chakri_memorial_day_witness:
  "Thailand_populate reference 2019 (HolidayBase_init False) \<noteq> None \<and>
   weekday \<lparr>year = 2019, month = 4, day = 6\<rparr> = SAT \<and>
   (\<lparr>year = 2019, month = 4, day = 8\<rparr>, ''Chakri Memorial Day'')
     \<in> set (recorded (HolidayBase_init False)
              (the (Thailand_populate reference 2019 (HolidayBase_init False))))"
proof -
  obtain s' where s': "Thailand_populate reference 2019 (HolidayBase_init False) = Some s'"
    using Thailand_2019_returns by blast
  from chakri_memorial_day [OF s', of "chakri_date 2019"] show ?thesis
    by (simp add: s' chakri_date_2019)
qed

section \<open>Holidays relative to Western Easter\<close>

lemma easter_plusI:
  "easter c (Y + k) EASTER_WESTERN = Some e \<Longrightarrow> date_add e off = Some d \<Longrightarrow> year d = Y
   \<Longrightarrow> off \<noteq> 0 \<Longrightarrow> k \<in> {- 1, 0, 1} \<Longrightarrow> easter_plus c Y off d"
  unfolding easter_plus_def by (auto dest: date_add_inverse)

lemma easter_plusI0:
  "easter c (Y + k) EASTER_WESTERN = Some d \<Longrightarrow> year d = Y
   \<Longrightarrow> k \<in> {- 1, 0, 1} \<Longrightarrow> easter_plus c Y 0 d"
  unfolding easter_plus_def by (auto simp: date_add_zero)

lemmas easter_plus_intros =
  easter_plusI [where k = "- 1", simplified] easter_plusI [where k = 0, simplified]
  easter_plusI [where k = 1, simplified]
  easter_plusI0 [where k = "- 1", simplified] easter_plusI0 [where k = 0, simplified]
  easter_plusI0 [where k = 1, simplified]

lemma weo_simps:
  "western_easter_offset Indonesia n = (if n = ''Ascension of Jesus'' then Some 39 else None)"
  "western_easter_offset India n =
     (if n = ''Palm Sunday'' then Some (- 7) else if n = ''Maundy Thursday'' then Some (- 3)
      else if n = ''Good Friday'' then Some (- 2) else if n = ''Easter Sunday'' then Some 0
      else if n = ''Feast of Pentecost'' then Some 49 else None)"
  "western_easter_offset Philippines n =
     (if n = ''Maundy Thursday'' then Some (- 3) else if n = ''Good Friday'' then Some (- 2)
      else None)"
  "western_easter_offset Kyrgyzstan n = None"
  "western_easter_offset Thailand n = None"
  "western_easter_offset Pakistan n = None"
  "western_easter_offset Russia n = None"
  "western_easter_offset Belarus n = None"
  "western_easter_offset Georgia n = None"
  by (simp_all add: western_easter_offset_def)

lemma emits_easter_Indonesia:
  "emits B (\<lambda>d n. \<forall>off. western_easter_offset Indonesia n = Some off \<longrightarrow> easter_plus c Y off d)
     (Indonesia_populate c Y)"
  unfolding Indonesia_populate_def
  by (intro emits_seq emits_blocks) (simp_all add: weo_simps easter_plus_intros)

lemma emits_easter_India:
  "emits B (\<lambda>d n. \<forall>off. western_easter_offset India n = Some off \<longrightarrow> easter_plus c Y off d)
     (India_populate c Y)"
  unfolding India_populate_def
  by (intro emits_seq emits_blocks) (simp_all add: weo_simps easter_plus_intros)

lemma emits_easter_Philippines:
  "emits B (\<lambda>d n. \<forall>off. western_easter_offset Philippines n = Some off \<longrightarrow> easter_plus c Y off d)
     (Philippines_populate c Y)"
  unfolding Philippines_populate_def
  by (intro emits_seq emits_blocks) (simp_all add: weo_simps easter_plus_intros)

text \<open>
  Claim C3.  For each holiday defined relative to Western Easter (Ascension of Jesus
  in Indonesia; Palm Sunday, Maundy Thursday, Good Friday, Easter Sunday and the Feast
  of Pentecost in India; Maundy Thursday and Good Friday in the Philippines), every
  date \<open>d\<close> that populate assigns under the holiday's name for the year \<open>Y\<close> lies in
  \<open>Y\<close> and is Western Easter of \<open>Y - 1\<close>, \<open>Y\<close> or \<open>Y + 1\<close> moved by the holiday's
  offset; for Easter Sunday, whose offset is 0, it is that Easter date itself.
  Subtracting the offset from \<open>d\<close> gives that Easter date back, for every Easter
  date that is a date of the calendar.
\<close>

theorem western_easter_relative:
  assumes "populate cls c Y s = Some s'"
    and "(d, name) \<in> set (recorded s s')"
    and "western_easter_offset cls name = Some off"
  shows "year d = Y \<and>
     (\<exists>k \<in> {- 1, 0, 1}. \<exists>e. easter c (Y + k) EASTER_WESTERN = Some e \<and>
        (if off = 0 then d = e else date_add e off = Some d) \<and>
        (valid_date e \<longrightarrow> date_add d (- off) = Some e))"
proof -
  have "emits UNIV (\<lambda>d n. \<forall>off. western_easter_offset cls n = Some off \<longrightarrow> easter_plus c Y off d)
     (populate cls c Y)"
  proof (cases cls)
    case Indonesia then show ?thesis by (simp add: emits_easter_Indonesia)
  next
    case India then show ?thesis by (simp add: emits_easter_India)
  next
    case Philippines then show ?thesis by (simp add: emits_easter_Philippines)
  qed (use assms(3) in \<open>simp_all add: weo_simps\<close>)
  from emitsD [OF this assms(1) _ assms(2)] assms(3) show ?thesis
    by (simp add: easter_plus_def)
qed


lemma India_2019:
  "populate India reference 2019 (HolidayBase_init True) \<noteq> None"
  "(\<lparr>year = 2019, month = 4, day = 19\<rparr>, ''Good Friday'')
     \<in> set (recorded (HolidayBase_init True)
              (the (populate India reference 2019 (HolidayBase_init True))))"
  "western_easter_offset India ''Good Friday'' = Some (- 2)"
  "easter reference (2019 + 0) EASTER_WESTERN = Some \<lparr>year = 2019, month = 4, day = 21\<rparr>"
  "date_add \<lparr>year = 2019, month = 4, day = 21\<rparr> (- 2) = Some \<lparr>year = 2019, month = 4, day = 19\<rparr>"
  "valid_date \<lparr>year = 2019, month = 4, day = 21\<rparr>"
  "date_add \<lparr>year = 2019, month = 4, day = 19\<rparr> (- (- 2)) = Some \<lparr>year = 2019, month = 4, day = 21\<rparr>"
  by code_simp+

theorem western_easter_relative_witness:
  "populate India reference 2019 (HolidayBase_init True) \<noteq> None \<and>
   (\<lparr>year = 2019, month = 4, day = 19\<rparr>, ''Good Friday'')
     \<in> set (recorded (HolidayBase_init True)
              (the (populate India reference 2019 (HolidayBase_init True)))) \<and>
   western_easter_offset India ''Good Friday'' = Some (- 2) \<and>
   year \<lparr>year = 2019, month = 4, day = 19\<rparr> = 2019 \<and>
   easter reference (2019 + 0) EASTER_WESTERN = Some \<lparr>year = 2019, month = 4, day = 21\<rparr> \<and>
   valid_date \<lparr>year = 2019, month = 4, day = 21\<rparr> \<and>
   date_add \<lparr>year = 2019, month = 4, day = 19\<rparr> (- (- 2))
     = Some \<lparr>year = 2019, month = 4, day = 21\<rparr> \<and>
   (\<exists>k \<in> {- 1, 0, 1}. \<exists>e. easter reference (2019 + k) EASTER_WESTERN = Some e \<and>
      date_add e (- 2) = Some \<lparr>year = 2019, month = 4, day = 19\<rparr>)"
proof -
  obtain s' where s': "populate India reference 2019 (HolidayBase_init True) = Some s'"
    using India_2019(1) by blast
  have m: "(\<lparr>year = 2019, month = 4, day = 19\<rparr>, ''Good Friday'')
      \<in> set (recorded (HolidayBase_init True) s')"
    using India_2019(2) s' by simp
  from western_easter_relative [OF s' m India_2019(3)]
  have "\<exists>k \<in> {- 1, 0, 1}. \<exists>e. easter reference (2019 + k) EASTER_WESTERN = Some e \<and>
      date_add e (- 2) = Some \<lparr>year = 2019, month = 4, day = 19\<rparr>"
    by (simp only: rel_simps if_False) blast
  with m s' India_2019(3-7) show ?thesis by simp
qed

section \<open>Commemoration Day\<close>

lemma commemoration_day:
  assumes "Belarus_populate c Y s = Some s'"
    and "easter c Y EASTER_ORTHODOX = Some e" and "date_add e 9 = Some d"
  shows "(d', ''Commemoration Day'') \<in> set (recorded s s') \<longleftrightarrow> d' = d"
proof -
  note one = effect_orthodox_offset [OF assms(2,3), of UNIV "''Commemoration Day''"]
  have a: "emits UNIV (\<lambda>k n. n = ''Commemoration Day'' \<longrightarrow> k = d) (Belarus_populate c Y)"
    unfolding Belarus_populate_def
    by (intro emits_seq emits_effect_eq [OF one]) simp_all
  have b: "effect UNIV (\<lambda>new. (d, ''Commemoration Day'') \<in> set new) (Belarus_populate c Y)"
    unfolding Belarus_populate_def
    by (rule records_member [where f = "orthodox_offset ''Commemoration Day'' 9 c Y"])
       (auto intro: effect_mono [OF one] simp: emits_True_blocks)
  show ?thesis
    using emitsD [OF a assms(1), of d' "''Commemoration Day''"] effectD(1) [OF b assms(1)]
    by auto
qed

lemma Belarus_populate_cong:
  "easter c' Y EASTER_ORTHODOX = easter c Y EASTER_ORTHODOX
   \<Longrightarrow> Belarus_populate c' Y = Belarus_populate c Y"
  by (simp add: Belarus_populate_def orthodox_offset_def)

text \<open>
  Claim C7.  For the year 2024 the date Belarus's populate assigns the name
  Commemoration Day is Orthodox Easter of 2024 plus nine days, and no other date
  gets the name.  The Western computation plays no part: any collaborators that
  return the same Orthodox Easter for 2024 lead to the same result, whatever their
  Western Easter is.
\<close>

theorem commemoration_day_2024:
  assumes "Belarus_populate c 2024 s = Some s'"
    and "easter c 2024 EASTER_ORTHODOX = Some e" and "date_add e 9 = Some d"
  shows "((d', ''Commemoration Day'') \<in> set (recorded s s') \<longleftrightarrow> d' = d) \<and>
    (easter c' 2024 EASTER_ORTHODOX = Some e \<longrightarrow> Belarus_populate c' 2024 s = Some s')"
  using commemoration_day [OF assms] Belarus_populate_cong [of c' 2024 c] assms by simp

lemma Belarus_2024:
  "Belarus_populate reference 2024 (HolidayBase_init True) \<noteq> None"
  "easter reference 2024 EASTER_ORTHODOX = Some \<lparr>year = 2024, month = 5, day = 5\<rparr>"
  "easter reference 2024 EASTER_WESTERN = Some \<lparr>year = 2024, month = 3, day = 31\<rparr>"
  "date_add \<lparr>year = 2024, month = 5, day = 5\<rparr> 9 = Some \<lparr>year = 2024, month = 5, day = 14\<rparr>"
  "easter orthodox_only 2024 EASTER_ORTHODOX = Some \<lparr>year = 2024, month = 5, day = 5\<rparr>"
  "easter orthodox_only 2024 EASTER_WESTERN = Some \<lparr>year = 2024, month = 5, day = 5\<rparr>"
  by (code_simp, code_simp, code_simp, code_simp)
     (simp_all add: orthodox_only_def, code_simp+)

theorem commemoration_day_2024_witness:
  "Belarus_populate reference 2024 (HolidayBase_init True) \<noteq> None \<and>
   easter reference 2024 EASTER_ORTHODOX = Some \<lparr>year = 2024, month = 5, day = 5\<rparr> \<and>
   easter reference 2024 EASTER_WESTERN = Some \<lparr>year = 2024, month = 3, day = 31\<rparr> \<and>
   date_add \<lparr>year = 2024, month = 5, day = 5\<rparr> 9 = Some \<lparr>year = 2024, month = 5, day = 14\<rparr> \<and>
   (\<lparr>year = 2024, month = 5, day = 14\<rparr>, ''Commemoration Day'')
      \<in> set (recorded (HolidayBase_init True)
               (the (Belarus_populate reference 2024 (HolidayBase_init True)))) \<and>
   easter orthodox_only 2024 EASTER_WESTERN = Some \<lparr>year = 2024, month = 5, day = 5\<rparr> \<and>
   Belarus_populate orthodox_only 2024 (HolidayBase_init True)
     = Belarus_populate reference 2024 (HolidayBase_init True)"
proof -
  obtain s' where s': "Belarus_populate reference 2024 (HolidayBase_init True) = Some s'"
    using Belarus_2024(1) by blast
  from commemoration_day_2024 [OF s' Belarus_2024(2) Belarus_2024(4),
      of "\<lparr>year = 2024, month = 5, day = 14\<rparr>" orthodox_only]
  show ?thesis by (simp add: s' Belarus_2024)
qed


section \<open>The hard-coded tables\<close>

lemma run2: "run [f, g] s = (case f s of None \<Rightarrow> None | Some s' \<Rightarrow> g s')"
  by (simp split: option.splits)

lemma recorded_self: "recorded s s = []" by (simp add: recorded_def)

lemma table_simps:
  "warn msg s = Some (s\<lparr>warned := warned s @ [msg]\<rparr>)"
  "pass s = Some s"
  "recorded s (s\<lparr>warned := w\<rparr>) = []"
  "recorded s (s\<lparr>items := i, assigned := assigned s @ new\<rparr>) = new"
  "recorded s (s\<lparr>warned := w, items := i, assigned := assigned s @ new\<rparr>) = new"
  by (simp_all add: warn_def pass_def recorded_def)

lemmas table_defs = table_simps setitem_date_def compute_def date_new_def setitem_def
  MINYEAR_def MAXYEAR_def days_in_month_def DAYS_IN_MONTH_def is_leap_def recorded_def

lemma table_warnings:
  "map_option warned (ID_nyepi Y s)
     = Some (warned s @ [''We only support Nyepi holiday from 2009 to 2019''])"
  "map_option warned (IN_diwali_holi Y s)
     = Some (warned s @ [''We only support Diwali and Holi holidays from 2010 to 2030''])"
  "map_option warned (TH_asalha_puja Y s)
     = Some (warned s @ [''We only support Asalha Puja holiday from 2006 to 2025''])"
  "map_option warned (TH_vassa Y s)
     = Some (warned s @ [''We only support Vassa holiday from 2006 to 2020''])"
  unfolding ID_nyepi_def IN_diwali_holi_def diwali_holi_def TH_asalha_puja_def TH_vassa_def run2
  by (auto simp: table_defs)

lemma table_past_range:
  "map_option (recorded s) (ID_nyepi 2020 s) = Some []"
  "map_option (recorded s) (IN_diwali_holi 2031 s) = Some []"
  "map_option (recorded s) (TH_asalha_puja 2026 s) = Some []"
  "map_option (recorded s) (TH_vassa 2021 s) = Some []"
  unfolding ID_nyepi_def IN_diwali_holi_def diwali_holi_def TH_asalha_puja_def TH_vassa_def run2
  by (auto simp: table_defs)


lemmas dates_defs = nyepi_dates_def diwali_dates_def holi_dates_def magha_pujab_dates_def
  asalha_puja_dates_def vassa_dates_def

lemma nyepi_lookup:
  "map_option (recorded s) (ID_nyepi Y s)
     = Some (table_entry nyepi_dates ''Day of Silence/ Nyepi'' Y)"
  unfolding ID_nyepi_def run2 table_entry_def nyepi_dates_def
  by (auto simp: table_defs)

lemma diwali_holi_lookup:
  "map_option (recorded s) (IN_diwali_holi Y s)
     = Some (table_entry diwali_dates ''Diwali'' Y @ table_entry holi_dates ''Holi'' Y)"
  unfolding IN_diwali_holi_def diwali_holi_def run2 table_entry_def diwali_dates_def holi_dates_def
  by (auto simp: table_defs)

lemma magha_pujab_lookup:
  "map_option (recorded s) (TH_magha_pujab Y s)
     = Some (table_entry magha_pujab_dates ''Magha Pujab/Makha Bucha'' Y)"
  unfolding TH_magha_pujab_def table_entry_def magha_pujab_dates_def
  by (auto simp: table_defs)

lemma asalha_puja_lookup:
  "map_option (recorded s) (TH_asalha_puja Y s)
     = Some (table_entry asalha_puja_dates ''Asalha Puja'' Y)"
  unfolding TH_asalha_puja_def run2 table_entry_def asalha_puja_dates_def
  by (auto simp: table_defs)

lemma vassa_lookup:
  "map_option (recorded s) (TH_vassa Y s)
     = Some (table_entry vassa_dates ''Beginning of Vassa'' Y)"
  unfolding TH_vassa_def run2 table_entry_def vassa_dates_def
  by (auto simp: table_defs)

lemma supported_ranges:
  "(map_of nyepi_dates Y = None) = (Y < 2009 \<or> 2019 < Y)"
  "(map_of diwali_dates Y = None) = (Y < 2010 \<or> 2030 < Y)"
  "(map_of holi_dates Y = None) = (Y < 2010 \<or> 2030 < Y)"
  "(map_of magha_pujab_dates Y = None) = (Y < 2016 \<or> 2019 < Y)"
  "(map_of asalha_puja_dates Y = None) = (Y < 2006 \<or> 2025 < Y)"
  "(map_of vassa_dates Y = None) = (Y < 2006 \<or> 2020 < Y)"
  unfolding dates_defs by (simp_all; presburger)+

lemma table_entry_name: "(d, n) \<in> set (table_entry tbl name Y) \<Longrightarrow> n = name"
  by (auto simp: table_entry_def split: option.splits)

lemma effect_tables:
  "effect B (\<lambda>new. new = table_entry nyepi_dates ''Day of Silence/ Nyepi'' Y) (ID_nyepi Y)"
  "effect B (\<lambda>new. new = table_entry diwali_dates ''Diwali'' Y @ table_entry holi_dates ''Holi'' Y)
     (IN_diwali_holi Y)"
  "effect B (\<lambda>new. new = table_entry magha_pujab_dates ''Magha Pujab/Makha Bucha'' Y)
     (TH_magha_pujab Y)"
  "effect B (\<lambda>new. new = table_entry asalha_puja_dates ''Asalha Puja'' Y) (TH_asalha_puja Y)"
  "effect B (\<lambda>new. new = table_entry vassa_dates ''Beginning of Vassa'' Y) (TH_vassa Y)"
  by (intro effect_lookup emits_True_blocks nyepi_lookup diwali_holi_lookup magha_pujab_lookup
        asalha_puja_lookup vassa_lookup)+

lemma ht_simps:
  "hardcoded_table Indonesia n =
     (if n = ''Day of Silence/ Nyepi'' then Some nyepi_dates else None)"
  "hardcoded_table India n =
     (if n = ''Diwali'' then Some diwali_dates else if n = ''Holi'' then Some holi_dates
      else None)"
  "hardcoded_table Thailand n =
     (if n = ''Magha Pujab/Makha Bucha'' then Some magha_pujab_dates
      else if n = ''Asalha Puja'' then Some asalha_puja_dates
      else if n = ''Beginning of Vassa'' then Some vassa_dates else None)"
  "hardcoded_table Kyrgyzstan n = None"
  "hardcoded_table Philippines n = None"
  "hardcoded_table Pakistan n = None"
  "hardcoded_table Russia n = None"
  "hardcoded_table Belarus n = None"
  "hardcoded_table Georgia n = None"
  by (simp_all add: hardcoded_table_def)

lemma table_entry_ht:
  assumes "(d, n) \<in> set (table_entry tbl0 name0 Y)"
    and "hardcoded_table cls name0 = Some tbl0" and "hardcoded_table cls n = Some tbl"
  shows "(d, n) \<in> set (table_entry tbl n Y)"
proof -
  from assms(1) have "n = name0" by (rule table_entry_name)
  with assms show ?thesis by simp
qed

lemma emits_table_block:
  assumes "effect B (\<lambda>new. new = table_entry tbl0 name0 Y) f"
    and "hardcoded_table cls name0 = Some tbl0"
  shows "emits B (\<lambda>d n. \<forall>tbl. hardcoded_table cls n = Some tbl
                       \<longrightarrow> (d, n) \<in> set (table_entry tbl n Y)) f"
  by (rule emits_effect_list [OF assms(1)]) (blast intro: table_entry_ht [OF _ assms(2)])

lemma emits_table_block2:
  assumes "effect B (\<lambda>new. new = table_entry tbl1 name1 Y @ table_entry tbl2 name2 Y) f"
    and "hardcoded_table cls name1 = Some tbl1" and "hardcoded_table cls name2 = Some tbl2"
  shows "emits B (\<lambda>d n. \<forall>tbl. hardcoded_table cls n = Some tbl
                       \<longrightarrow> (d, n) \<in> set (table_entry tbl n Y)) f"
proof (rule emits_effect_list [OF assms(1)], intro allI impI)
  fix d n tbl
  assume "(d, n) \<in> set (table_entry tbl1 name1 Y @ table_entry tbl2 name2 Y)"
    and h: "hardcoded_table cls n = Some tbl"
  then consider "(d, n) \<in> set (table_entry tbl1 name1 Y)"
    | "(d, n) \<in> set (table_entry tbl2 name2 Y)" by auto
  then show "(d, n) \<in> set (table_entry tbl n Y)"
    by cases (rule table_entry_ht [OF _ assms(2) h], assumption,
              rule table_entry_ht [OF _ assms(3) h], assumption)
qed

lemma ht_entries:
  "hardcoded_table Indonesia ''Day of Silence/ Nyepi'' = Some nyepi_dates"
  "hardcoded_table India ''Diwali'' = Some diwali_dates"
  "hardcoded_table India ''Holi'' = Some holi_dates"
  "hardcoded_table Thailand ''Magha Pujab/Makha Bucha'' = Some magha_pujab_dates"
  "hardcoded_table Thailand ''Asalha Puja'' = Some asalha_puja_dates"
  "hardcoded_table Thailand ''Beginning of Vassa'' = Some vassa_dates"
  by (simp_all add: ht_simps)

lemmas emits_table_blocks =
  emits_table_block [OF effect_tables(1) ht_entries(1)]
  emits_table_block2 [OF effect_tables(2) ht_entries(2,3)]
  emits_table_block [OF effect_tables(3) ht_entries(4)]
  emits_table_block [OF effect_tables(4) ht_entries(5)]
  emits_table_block [OF effect_tables(5) ht_entries(6)]

lemma emits_tables_Indonesia:
  "emits B (\<lambda>d n. \<forall>tbl. hardcoded_table Indonesia n = Some tbl
                    \<longrightarrow> (d, n) \<in> set (table_entry tbl n Y))
     (Indonesia_populate c Y)"
  unfolding Indonesia_populate_def
  by (intro emits_seq emits_lunar_body emits_easter_body emits_hijri_body emits_ID_new_year
        emits_ID_eid_al_fitr_body emits_table_blocks)
     (simp_all add: ht_simps)

lemma emits_tables_India:
  "emits B (\<lambda>d n. \<forall>tbl. hardcoded_table India n = Some tbl
                    \<longrightarrow> (d, n) \<in> set (table_entry tbl n Y))
     (India_populate c Y)"
  unfolding India_populate_def
  by (intro emits_seq emits_easter_body emits_easter_sunday_body emits_hijri_body
        emits_hijri2_body emits_table_blocks)
     (simp_all add: ht_simps)

lemma emits_tables_Thailand:
  "emits B (\<lambda>d n. \<forall>tbl. hardcoded_table Thailand n = Some tbl
                    \<longrightarrow> (d, n) \<in> set (table_entry tbl n Y))
     (Thailand_populate c Y)"
  unfolding Thailand_populate_def
  by (intro emits_seq emits_lunar_body emits_TH_chakri emits_table_blocks)
     (simp_all add: ht_simps)

lemma records_tables:
  "effect B (\<lambda>new. set (table_entry nyepi_dates ''Day of Silence/ Nyepi'' Y) \<subseteq> set new)
     (Indonesia_populate c Y)"
  "effect B (\<lambda>new. set (table_entry diwali_dates ''Diwali'' Y @ table_entry holi_dates ''Holi'' Y)
                     \<subseteq> set new)
     (India_populate c Y)"
  "effect B (\<lambda>new. set (table_entry magha_pujab_dates ''Magha Pujab/Makha Bucha'' Y) \<subseteq> set new)
     (Thailand_populate c Y)"
  "effect B (\<lambda>new. set (table_entry asalha_puja_dates ''Asalha Puja'' Y) \<subseteq> set new)
     (Thailand_populate c Y)"
  "effect B (\<lambda>new. set (table_entry vassa_dates ''Beginning of Vassa'' Y) \<subseteq> set new)
     (Thailand_populate c Y)"
  unfolding Indonesia_populate_def India_populate_def Thailand_populate_def
  by (rule records_subset [OF effect_tables(1)] records_subset [OF effect_tables(2)]
        records_subset [OF effect_tables(3)] records_subset [OF effect_tables(4)]
        records_subset [OF effect_tables(5)];
      auto simp: emits_True_blocks)+

lemma tables_in_populate:
  assumes h: "hardcoded_table cls name = Some tbl" and p: "populate cls c Y s = Some s'"
  shows "(d, name) \<in> set (recorded s s') \<longleftrightarrow> (d, name) \<in> set (table_entry tbl name Y)"
    and "items s' = items s ++ map_of (rev (recorded s s'))"
proof -
  have E: "emits UNIV (\<lambda>d n. \<forall>tbl. hardcoded_table cls n = Some tbl
                    \<longrightarrow> (d, n) \<in> set (table_entry tbl n Y)) (populate cls c Y)"
  proof (cases cls)
    case Indonesia then show ?thesis by (simp add: emits_tables_Indonesia)
  next
    case India then show ?thesis by (simp add: emits_tables_India)
  next
    case Thailand then show ?thesis by (simp add: emits_tables_Thailand)
  qed (use h in \<open>simp_all add: ht_simps\<close>)
  show "items s' = items s ++ map_of (rev (recorded s s'))"
    by (rule effectD(3) [OF E [unfolded emits_def] p]) simp
  have sub: "set (table_entry tbl name Y) \<subseteq> set (recorded s s')"
  proof (cases cls)
    case Indonesia
    with h p show ?thesis
      using effectD(1) [OF records_tables(1), of c Y s s' UNIV]
      by (auto simp: ht_simps split: if_splits)
  next
    case India
    with h p show ?thesis
      using effectD(1) [OF records_tables(2), of c Y s s' UNIV]
      by (auto simp: ht_simps split: if_splits)
  next
    case Thailand
    with h p show ?thesis
      using effectD(1) [OF records_tables(3), of c Y s s' UNIV]
        effectD(1) [OF records_tables(4), of c Y s s' UNIV]
        effectD(1) [OF records_tables(5), of c Y s s' UNIV]
      by (auto simp: ht_simps split: if_splits)
  qed (use h in \<open>simp_all add: ht_simps\<close>)
  show "(d, name) \<in> set (recorded s s') \<longleftrightarrow> (d, name) \<in> set (table_entry tbl name Y)"
  proof
    assume "(d, name) \<in> set (recorded s s')"
    from emitsD [OF E p _ this] h show "(d, name) \<in> set (table_entry tbl name Y)" by simp
  next
    assume "(d, name) \<in> set (table_entry tbl name Y)"
    with sub show "(d, name) \<in> set (recorded s s')" by blast
  qed
qed

text \<open>
  Claim C8.  Each of the five tables (Nyepi; Diwali and Holi; Magha Pujab; Asalha
  Puja; Vassa) returns for every year, so the statements after it run, and the
  assignments it makes are the row of the table for that year under the holiday's
  name: the date of \<open>Y\<close> with the tabulated month and day, and nothing when \<open>Y\<close> has
  no row.  The years without a row are those outside the range the warning names
  (Magha Pujab, which has no warning: outside 2016 to 2019).  Whenever populate of
  Indonesia, India or Thailand returns, the dates it assigns under the name of a
  tabulated holiday are those of the row and no other, so none for a year outside
  the range; the tabulated date is a key of the resulting dictionary, and maps to the
  holiday's name unless another holiday is assigned the same date (Asalha Puja and
  the Beginning of Vassa share July 13, 2014 and July 9, 2017, and the later name is
  kept).
\<close>

theorem hardcoded_year_tables:
  "map_option (recorded s) (ID_nyepi Y s)
     = Some (table_entry nyepi_dates ''Day of Silence/ Nyepi'' Y) \<and>
   map_option (recorded s) (IN_diwali_holi Y s)
     = Some (table_entry diwali_dates ''Diwali'' Y @ table_entry holi_dates ''Holi'' Y) \<and>
   map_option (recorded s) (TH_magha_pujab Y s)
     = Some (table_entry magha_pujab_dates ''Magha Pujab/Makha Bucha'' Y) \<and>
   map_option (recorded s) (TH_asalha_puja Y s)
     = Some (table_entry asalha_puja_dates ''Asalha Puja'' Y) \<and>
   map_option (recorded s) (TH_vassa Y s)
     = Some (table_entry vassa_dates ''Beginning of Vassa'' Y) \<and>
   (map_of nyepi_dates Y = None) = (Y < 2009 \<or> 2019 < Y) \<and>
   (map_of diwali_dates Y = None) = (Y < 2010 \<or> 2030 < Y) \<and>
   (map_of holi_dates Y = None) = (Y < 2010 \<or> 2030 < Y) \<and>
   (map_of magha_pujab_dates Y = None) = (Y < 2016 \<or> 2019 < Y) \<and>
   (map_of asalha_puja_dates Y = None) = (Y < 2006 \<or> 2025 < Y) \<and>
   (map_of vassa_dates Y = None) = (Y < 2006 \<or> 2020 < Y) \<and>
   (hardcoded_table cls name = Some tbl \<longrightarrow> populate cls c Y s = Some s' \<longrightarrow>
      ((d, name) \<in> set (recorded s s')) = ((d, name) \<in> set (table_entry tbl name Y)) \<and>
      ((d, name) \<in> set (table_entry tbl name Y) \<longrightarrow>
         d \<in> dom (items s') \<and>
         ((\<forall>(d', n) \<in> set (recorded s s'). d' = d \<longrightarrow> n = name)
            \<longrightarrow> items s' d = Some name)))"
proof (intro conjI impI)
  assume h: "hardcoded_table cls name = Some tbl" and p: "populate cls c Y s = Some s'"
  note t = tables_in_populate [OF h p]
  show "((d, name) \<in> set (recorded s s')) = ((d, name) \<in> set (table_entry tbl name Y))"
    by (rule t(1))
  assume "(d, name) \<in> set (table_entry tbl name Y)"
  with t(1) have m: "(d, name) \<in> set (recorded s s')" by simp
  from t(2) m show "d \<in> dom (items s')" by (rule key_of_recorded)
  assume "\<forall>(d', n) \<in> set (recorded s s'). d' = d \<longrightarrow> n = name"
  then have "\<forall>n. (d, n) \<in> set (recorded s s') \<longrightarrow> n = name" by blast
  with t(2) m show "items s' d = Some name" by (rule items_of_unique)
qed (rule nyepi_lookup diwali_holi_lookup magha_pujab_lookup asalha_puja_lookup vassa_lookup
       supported_ranges)+

lemma Thailand_tables_2019:
  "hardcoded_table Thailand ''Asalha Puja'' = Some asalha_puja_dates"
  "populate Thailand reference 2019 (HolidayBase_init False) \<noteq> None"
  "map_of asalha_puja_dates 2019 = Some (7, 16)"
  "table_entry asalha_puja_dates ''Asalha Puja'' 2019
     = [(\<lparr>year = 2019, month = 7, day = 16\<rparr>, ''Asalha Puja'')]"
  "\<forall>(d', n) \<in> set (recorded (HolidayBase_init False)
                      (the (populate Thailand reference 2019 (HolidayBase_init False)))).
      d' = \<lparr>year = 2019, month = 7, day = 16\<rparr> \<longrightarrow> n = ''Asalha Puja''"
  by code_simp+

lemma Thailand_tables_2026:
  "populate Thailand reference 2026 (HolidayBase_init False) \<noteq> None"
  "map_of asalha_puja_dates 2026 = None"
  "table_entry asalha_puja_dates ''Asalha Puja'' 2026 = []"
  by code_simp+

lemma Thailand_tables_2017:
  "populate Thailand reference 2017 (HolidayBase_init False) \<noteq> None"
  "table_entry asalha_puja_dates ''Asalha Puja'' 2017
     = [(\<lparr>year = 2017, month = 7, day = 9\<rparr>, ''Asalha Puja'')]"
  "table_entry vassa_dates ''Beginning of Vassa'' 2017
     = [(\<lparr>year = 2017, month = 7, day = 9\<rparr>, ''Beginning of Vassa'')]"
  "items (the (populate Thailand reference 2017 (HolidayBase_init False)))
     \<lparr>year = 2017, month = 7, day = 9\<rparr> = Some ''Beginning of Vassa''"
  by code_simp+

theorem hardcoded_year_tables_witness:
  "hardcoded_table Thailand ''Asalha Puja'' = Some asalha_puja_dates \<and>
   populate Thailand reference 2019 (HolidayBase_init False) \<noteq> None \<and>
   map_of asalha_puja_dates 2019 = Some (7, 16) \<and>
   (\<lparr>year = 2019, month = 7, day = 16\<rparr>, ''Asalha Puja'')
      \<in> set (recorded (HolidayBase_init False)
               (the (populate Thailand reference 2019 (HolidayBase_init False)))) \<and>
   items (the (populate Thailand reference 2019 (HolidayBase_init False)))
      \<lparr>year = 2019, month = 7, day = 16\<rparr> = Some ''Asalha Puja'' \<and>
   populate Thailand reference 2026 (HolidayBase_init False) \<noteq> None \<and>
   map_of asalha_puja_dates 2026 = None \<and>
   (\<forall>d. (d, ''Asalha Puja'')
      \<notin> set (recorded (HolidayBase_init False)
               (the (populate Thailand reference 2026 (HolidayBase_init False))))) \<and>
   populate Thailand reference 2017 (HolidayBase_init False) \<noteq> None \<and>
   (\<lparr>year = 2017, month = 7, day = 9\<rparr>, ''Asalha Puja'')
      \<in> set (recorded (HolidayBase_init False)
               (the (populate Thailand reference 2017 (HolidayBase_init False)))) \<and>
   (\<lparr>year = 2017, month = 7, day = 9\<rparr>, ''Beginning of Vassa'')
      \<in> set (recorded (HolidayBase_init False)
               (the (populate Thailand reference 2017 (HolidayBase_init False)))) \<and>
   items (the (populate Thailand reference 2017 (HolidayBase_init False)))
      \<lparr>year = 2017, month = 7, day = 9\<rparr> = Some ''Beginning of Vassa''"
proof -
  let ?s = "HolidayBase_init False"
  obtain s' where s': "populate Thailand reference 2019 ?s = Some s'"
    using Thailand_tables_2019(2) by blast
  obtain u where u: "populate Thailand reference 2026 ?s = Some u"
    using Thailand_tables_2026(1) by blast
  obtain v where v: "populate Thailand reference 2017 ?s = Some v"
    using Thailand_tables_2017(1) by blast
  from hardcoded_year_tables [where cls = Thailand and name = "''Asalha Puja''"
      and tbl = asalha_puja_dates and c = reference and Y = 2019 and s = ?s and s' = s'
      and d = "\<lparr>year = 2019, month = 7, day = 16\<rparr>"]
    Thailand_tables_2019 s'
  have 1: "(\<lparr>year = 2019, month = 7, day = 16\<rparr>, ''Asalha Puja'') \<in> set (recorded ?s s')"
    "items s' \<lparr>year = 2019, month = 7, day = 16\<rparr> = Some ''Asalha Puja''"
    by simp_all
  have 2: "(d, ''Asalha Puja'') \<notin> set (recorded ?s u)" for d
    using hardcoded_year_tables [where cls = Thailand and name = "''Asalha Puja''"
      and tbl = asalha_puja_dates and c = reference and Y = 2026 and s = ?s and s' = u
      and d = d] Thailand_tables_2019(1) Thailand_tables_2026 u
    by simp
  from hardcoded_year_tables [where cls = Thailand and name = "''Asalha Puja''"
      and tbl = asalha_puja_dates and c = reference and Y = 2017 and s = ?s and s' = v
      and d = "\<lparr>year = 2017, month = 7, day = 9\<rparr>"]
    Thailand_tables_2019(1) Thailand_tables_2017 v
  have 3: "(\<lparr>year = 2017, month = 7, day = 9\<rparr>, ''Asalha Puja'') \<in> set (recorded ?s v)"
    by simp
  from hardcoded_year_tables [where cls = Thailand and name = "''Beginning of Vassa''"
      and tbl = vassa_dates and c = reference and Y = 2017 and s = ?s and s' = v
      and d = "\<lparr>year = 2017, month = 7, day = 9\<rparr>"]
    ht_entries(6) Thailand_tables_2017 v
  have 4: "(\<lparr>year = 2017, month = 7, day = 9\<rparr>, ''Beginning of Vassa'') \<in> set (recorded ?s v)"
    by simp
  from s' u v have r: "Thailand_populate reference 2019 ?s = Some s'"
    "Thailand_populate reference 2026 ?s = Some u" "Thailand_populate reference 2017 ?s = Some v"
    by simp_all
  from Thailand_tables_2017(4) v
  have 5: "items v \<lparr>year = 2017, month = 7, day = 9\<rparr> = Some ''Beginning of Vassa''"
    by simp
  from 1 2 3 4 5 show ?thesis
    by (simp add: r Thailand_tables_2019(1,3) Thailand_tables_2026(2))
qed

section \<open>The warnings of the tables\<close>

text \<open>
  Claim C5, as stated, fails: the warning is not reserved for years outside the
  range.  Indonesia's populate for 2015, a year of the Nyepi table, records the
  tabulated date and issues the warning all the same.
\<close>

theorem warning_for_year_in_range:
  "map_option warned (Indonesia_populate reference 2015 (HolidayBase_init True))
     = Some [''We only support Nyepi holiday from 2009 to 2019''] \<and>
   map_option (\<lambda>s'. items s' \<lparr>year = 2015, month = 3, day = 21\<rparr>)
       (Indonesia_populate reference 2015 (HolidayBase_init True))
     = Some (Some ''Day of Silence/ Nyepi'')"
  by code_simp

text \<open>
  Claim C5, amended.  Each of the four tables that warn (Nyepi; Diwali and Holi;
  Asalha Puja; Vassa) calls \<^verbatim>\<open>warnings.warn\<close> exactly once with its message
  on every lookup, for every year, in range or not.  A lookup for the year after the
  last tabulated one returns, assigns no date and has issued that one warning.
\<close>

theorem table_warning_on_every_lookup:
  "map_option warned (ID_nyepi Y s)
     = Some (warned s @ [''We only support Nyepi holiday from 2009 to 2019'']) \<and>
   map_option warned (IN_diwali_holi Y s)
     = Some (warned s @ [''We only support Diwali and Holi holidays from 2010 to 2030'']) \<and>
   map_option warned (TH_asalha_puja Y s)
     = Some (warned s @ [''We only support Asalha Puja holiday from 2006 to 2025'']) \<and>
   map_option warned (TH_vassa Y s)
     = Some (warned s @ [''We only support Vassa holiday from 2006 to 2020'']) \<and>
   map_option (recorded s) (ID_nyepi 2020 s) = Some [] \<and>
   map_option (recorded s) (IN_diwali_holi 2031 s) = Some [] \<and>
   map_option (recorded s) (TH_asalha_puja 2026 s) = Some [] \<and>
   map_option (recorded s) (TH_vassa 2021 s) = Some []"
  by (intro conjI table_warnings table_past_range)

section \<open>New Year's Day in Indonesia\<close>


lemma effect_ID_new_year_skip:
  assumes "weekday \<lparr>year = Y, month = 1, day = 1\<rparr> \<in> set WEEKEND"
  shows "effect {False} (\<lambda>new. new = []) (ID_new_year Y)"
  unfolding effect_def
  using assms
  by (auto simp: ID_new_year_def compute_def pass_def split: option.splits dest!: date_new_SomeD)

lemma effect_ID_new_year_set:
  assumes "b \<or> weekday \<lparr>year = Y, month = 1, day = 1\<rparr> \<notin> set WEEKEND"
  shows "effect {b} (\<lambda>new. new = [(\<lparr>year = Y, month = 1, day = 1\<rparr>, ''New Year's Day'')])
           (ID_new_year Y)"
proof -
  have e: "effect {b} (\<lambda>new. new = [(\<lparr>year = Y, month = 1, day = 1\<rparr>, ''New Year's Day'')])
      (setitem_date Y 1 1 ''New Year's Day'')"
    by (rule effect_setitem_date) simp
  have "ID_new_year Y s = setitem_date Y 1 1 ''New Year's Day'' s \<or> ID_new_year Y s = None"
    if "observed s = b" for s
    using assms that
    by (auto simp: ID_new_year_def compute_def split: option.splits dest!: date_new_SomeD)
  with e show ?thesis unfolding effect_def by fastforce
qed


lemma first_statement_only:
  assumes f: "emits UNIV (\<lambda>d n. n = nm) f" and w: "writes UNIV (run fs)"
    and s: "run (f # fs) s = Some s'" and t: "run (f # fs) t = Some t'"
  shows "filter (\<lambda>(d, n). n \<noteq> nm) (recorded s s') = filter (\<lambda>(d, n). n \<noteq> nm) (recorded t t')"
proof -
  from w obtain r where r: "\<And>u. run fs u = map_option (apply_writes u) r"
    unfolding writes_def by auto
  have *: "filter (\<lambda>(d, n). n \<noteq> nm) (recorded u u') = filter (\<lambda>(d, n). n \<noteq> nm) (fst (the r))"
    if u: "run (f # fs) u = Some u'" for u u'
  proof -
    from u obtain u1 where 1: "f u = Some u1" and 2: "run fs u1 = Some u'"
      unfolding run_Cons_Some by blast
    from 2 r [of u1] have u': "u' = apply_writes u1 (the r)" by (cases r) auto
    from f 1 obtain a where a: "assigned u1 = assigned u @ a"
        and n: "list_all (\<lambda>(d, n). n = nm) a"
      unfolding emits_def effect_def by blast
    have "recorded u u' = a @ fst (the r)"
      by (simp add: u' apply_writes_def recorded_def a)
    moreover from n have "filter (\<lambda>(d, n). n \<noteq> nm) a = []"
      by (auto simp: list_all_iff filter_empty_conv)
    ultimately show ?thesis by simp
  qed
  from * [OF s] * [OF t] show ?thesis by simp
qed



lemma Indonesia_new_year_skipped:
  assumes "Indonesia_populate c Y s = Some s'"
   and a: "\<not> observed s \<and> weekday \<lparr>year = Y, month = 1, day = 1\<rparr> \<in> set WEEKEND"
  shows "\<forall>d. (d, ''New Year's Day'') \<notin> set (recorded s s')"
proof -
  from a have "emits {False} (\<lambda>d n. n \<noteq> ''New Year's Day'') (Indonesia_populate c Y)"
    unfolding Indonesia_populate_def
    by (intro emits_seq emits_effect_nil [OF effect_ID_new_year_skip] emits_lunar_body
          emits_ID_nyepi emits_hijri_body emits_easter_body emits_ID_eid_al_fitr_body)
       simp_all
  from emitsD [OF this assms(1)] a show "\<forall>d. (d, ''New Year's Day'') \<notin> set (recorded s s')"
    by auto
qed

lemma Indonesia_new_year_assigned:
  assumes a: "observed s \<or> weekday \<lparr>year = Y, month = 1, day = 1\<rparr> \<notin> set WEEKEND"
  shows "effect {observed s}
      (\<lambda>new. (\<lparr>year = Y, month = 1, day = 1\<rparr>, ''New Year's Day'') \<in> set new)
      (Indonesia_populate c Y)"
  unfolding Indonesia_populate_def
proof (rule records_member [where f = "ID_new_year Y"])
  show "effect {observed s}
     (\<lambda>new. (\<lparr>year = Y, month = 1, day = 1\<rparr>, ''New Year's Day'') \<in> set new) (ID_new_year Y)"
    by (rule effect_mono [OF effect_ID_new_year_set [OF a]]) simp
qed (auto simp: emits_True_blocks)

lemma Indonesia_observed_only_new_year:
  assumes "Indonesia_populate c Y s = Some s'"
   and t: "Indonesia_populate c Y (s\<lparr>observed := b\<rparr>) = Some t"
  shows "filter (\<lambda>(d, n). n \<noteq> ''New Year's Day'') (recorded (s\<lparr>observed := b\<rparr>) t)
      = filter (\<lambda>(d, n). n \<noteq> ''New Year's Day'') (recorded s s')"
    by (rule first_statement_only [OF _ _ t [unfolded Indonesia_populate_def]
          assms(1) [unfolded Indonesia_populate_def]])
       (simp_all add: emits_ID_new_year writes_intros writes_blocks)

text \<open>
  Claim C9, as stated, fails: January 1 does not always map to New Year's Day when the
  entry is assigned.  In 2060 the tabular Hijri calendar puts 27 Rajab 1482 on
  January 1, and the later assignment of Ascension of the Prophet replaces the name.
\<close>

theorem new_years_day_replaced:
  "observed (HolidayBase_init True) \<and>
   tabular_to_gregorian 1482 7 27 = Some (2060, 1, 1) \<and>
   map_option (\<lambda>s'. items s' \<lparr>year = 2060, month = 1, day = 1\<rparr>)
     (Indonesia_populate reference 2060 (HolidayBase_init True))
   = Some (Some ''Ascension of the Prophet'')"
  by code_simp

text \<open>
  Claim C9, amended.  Whenever Indonesia's populate returns for the year \<open>Y\<close>:
  if the instance is not observed and January 1 of \<open>Y\<close> is a Saturday or Sunday, no
  date is assigned the name New Year's Day; in every other case January 1 of \<open>Y\<close> is
  assigned New Year's Day, and maps to it in the result unless another holiday of
  the year is assigned to January 1 as well; and the assignments under every other
  name are the same for both values of the \<open>observed\<close> flag.
\<close>

theorem new_years_day_Indonesia:
  assumes "Indonesia_populate c Y s = Some s'"
  shows "(\<not> observed s \<and> weekday \<lparr>year = Y, month = 1, day = 1\<rparr> \<in> set WEEKEND
            \<longrightarrow> (\<forall>d. (d, ''New Year's Day'') \<notin> set (recorded s s')))
     \<and> (observed s \<or> weekday \<lparr>year = Y, month = 1, day = 1\<rparr> \<notin> set WEEKEND
            \<longrightarrow> (\<lparr>year = Y, month = 1, day = 1\<rparr>, ''New Year's Day'') \<in> set (recorded s s')
              \<and> ((\<forall>(d, n) \<in> set (recorded s s').
                        d = \<lparr>year = Y, month = 1, day = 1\<rparr> \<longrightarrow> n = ''New Year's Day'')
                   \<longrightarrow> items s' \<lparr>year = Y, month = 1, day = 1\<rparr> = Some ''New Year's Day''))
     \<and> (Indonesia_populate c Y (s\<lparr>observed := b\<rparr>) = Some t
            \<longrightarrow> filter (\<lambda>(d, n). n \<noteq> ''New Year's Day'') (recorded (s\<lparr>observed := b\<rparr>) t)
                = filter (\<lambda>(d, n). n \<noteq> ''New Year's Day'') (recorded s s'))"
proof (intro conjI impI)
  assume "\<not> observed s \<and> weekday \<lparr>year = Y, month = 1, day = 1\<rparr> \<in> set WEEKEND"
  with assms show "\<forall>d. (d, ''New Year's Day'') \<notin> set (recorded s s')"
    by (rule Indonesia_new_year_skipped)
next
  assume "observed s \<or> weekday \<lparr>year = Y, month = 1, day = 1\<rparr> \<notin> set WEEKEND"
  note e = effectD [OF Indonesia_new_year_assigned [OF this] assms singletonI]
  from e(1) show m: "(\<lparr>year = Y, month = 1, day = 1\<rparr>, ''New Year's Day'') \<in> set (recorded s s')"
    by simp
  assume "\<forall>(d, n) \<in> set (recorded s s').
      d = \<lparr>year = Y, month = 1, day = 1\<rparr> \<longrightarrow> n = ''New Year's Day''"
  then have "\<forall>n. (\<lparr>year = Y, month = 1, day = 1\<rparr>, n) \<in> set (recorded s s') \<longrightarrow> n = ''New Year's Day''"
    by blast
  with e(3) m show "items s' \<lparr>year = Y, month = 1, day = 1\<rparr> = Some ''New Year's Day''"
    by (rule items_of_unique)
next
  assume "Indonesia_populate c Y (s\<lparr>observed := b\<rparr>) = Some t"
  with assms show "filter (\<lambda>(d, n). n \<noteq> ''New Year's Day'') (recorded (s\<lparr>observed := b\<rparr>) t)
      = filter (\<lambda>(d, n). n \<noteq> ''New Year's Day'') (recorded s s')"
    by (rule Indonesia_observed_only_new_year)
qed

lemma Indonesia_2019_ny:
  "Indonesia_populate reference 2019 (HolidayBase_init True) \<noteq> None"
  "Indonesia_populate reference 2019 (HolidayBase_init False) \<noteq> None"
  "weekday \<lparr>year = 2019, month = 1, day = 1\<rparr> \<notin> set WEEKEND"
  "\<forall>(d, n) \<in> set (recorded (HolidayBase_init True)
                 (the (Indonesia_populate reference 2019 (HolidayBase_init True)))).
      d = \<lparr>year = 2019, month = 1, day = 1\<rparr> \<longrightarrow> n = ''New Year's Day''"
  by code_simp+

lemma Indonesia_2022_ny:
  "Indonesia_populate reference 2022 (HolidayBase_init False) \<noteq> None"
  "\<not> observed (HolidayBase_init False)"
  "weekday \<lparr>year = 2022, month = 1, day = 1\<rparr> \<in> set WEEKEND"
  by code_simp+

lemma HolidayBase_init_observed:
  "(HolidayBase_init True)\<lparr>observed := False\<rparr> = HolidayBase_init False"
  "observed (HolidayBase_init b) = b"
  by (simp_all add: HolidayBase_init_def)

theorem new_years_day_Indonesia_witness:
  "Indonesia_populate reference 2022 (HolidayBase_init False) \<noteq> None \<and>
   \<not> observed (HolidayBase_init False) \<and>
   weekday \<lparr>year = 2022, month = 1, day = 1\<rparr> \<in> set WEEKEND \<and>
   (\<forall>d. (d, ''New Year's Day'')
      \<notin> set (recorded (HolidayBase_init False)
               (the (Indonesia_populate reference 2022 (HolidayBase_init False))))) \<and>
   Indonesia_populate reference 2019 (HolidayBase_init True) \<noteq> None \<and>
   observed (HolidayBase_init True) \<and>
   (\<lparr>year = 2019, month = 1, day = 1\<rparr>, ''New Year's Day'')
      \<in> set (recorded (HolidayBase_init True)
               (the (Indonesia_populate reference 2019 (HolidayBase_init True)))) \<and>
   items (the (Indonesia_populate reference 2019 (HolidayBase_init True)))
      \<lparr>year = 2019, month = 1, day = 1\<rparr> = Some ''New Year's Day'' \<and>
   Indonesia_populate reference 2019 (HolidayBase_init False) \<noteq> None \<and>
   filter (\<lambda>(d, n). n \<noteq> ''New Year's Day'')
      (recorded (HolidayBase_init False)
         (the (Indonesia_populate reference 2019 (HolidayBase_init False))))
    = filter (\<lambda>(d, n). n \<noteq> ''New Year's Day'')
      (recorded (HolidayBase_init True)
         (the (Indonesia_populate reference 2019 (HolidayBase_init True))))"
proof -
  obtain u where u: "Indonesia_populate reference 2022 (HolidayBase_init False) = Some u"
    using Indonesia_2022_ny(1) by blast
  obtain s' where s': "Indonesia_populate reference 2019 (HolidayBase_init True) = Some s'"
    using Indonesia_2019_ny(1) by blast
  obtain t where t: "Indonesia_populate reference 2019 (HolidayBase_init False) = Some t"
    using Indonesia_2019_ny(2) by blast
  from new_years_day_Indonesia [OF u] Indonesia_2022_ny(2,3)
  have 1: "\<forall>d. (d, ''New Year's Day'') \<notin> set (recorded (HolidayBase_init False) u)"
    by blast
  from new_years_day_Indonesia [OF s', of False t] Indonesia_2019_ny(4) t
  have 2: "(\<lparr>year = 2019, month = 1, day = 1\<rparr>, ''New Year's Day'')
        \<in> set (recorded (HolidayBase_init True) s')"
    "items s' \<lparr>year = 2019, month = 1, day = 1\<rparr> = Some ''New Year's Day''"
    "filter (\<lambda>(d, n). n \<noteq> ''New Year's Day'') (recorded (HolidayBase_init False) t)
      = filter (\<lambda>(d, n). n \<noteq> ''New Year's Day'') (recorded (HolidayBase_init True) s')"
    by (simp_all add: HolidayBase_init_observed s')
  from 1 2 show ?thesis
    by (simp add: u s' t HolidayBase_init_observed Indonesia_2022_ny(3))
qed


section \<open>Eid al-Fitr in Indonesia\<close>

lemma second_dayI:
  "from_gregorian c (Y + k) 6 15 = Some (iy, im, idy) \<Longrightarrow>
   to_gregorian c iy 10 2 = Some (y2, m2, d2) \<Longrightarrow> k \<in> {- 1, 0, 1} \<Longrightarrow>
   second_day c Y \<lparr>year = Y, month = m2, day = d2\<rparr>"
  unfolding second_day_def by blast

lemmas second_day_intros =
  second_dayI [where k = "- 1", simplified] second_dayI [where k = 0, simplified]
  second_dayI [where k = 1, simplified]

lemma emits_eid_Indonesia:
  "emits B (\<lambda>d n. n = ''Eid al-Fitr'' \<longrightarrow> second_day c Y d) (Indonesia_populate c Y)"
  unfolding Indonesia_populate_def
  by (intro emits_seq emits_blocks) (simp_all add: second_day_intros)

text \<open>
  Claim C1 fails on Indonesia's Eid al-Fitr.  The assignment for the first day is
  \<^verbatim>\<open>self[date(y1, m2, d2)] = name\<close>: it takes the month and day of the second day.
  Hence every date Indonesia's populate assigns to Eid al-Fitr carries the month and
  day of 2 Shawwal; the conversion of 1 Shawwal, the first of the two consecutive
  days, is never what is assigned.  India and Pakistan assign
  \<^verbatim>\<open>date(y1, m1, d1)\<close> in the same place.
\<close>

theorem Indonesia_eid_al_fitr_second_day_only:
  assumes "Indonesia_populate c Y s = Some s'"
    and "(d, ''Eid al-Fitr'') \<in> set (recorded s s')"
  shows "\<exists>k \<in> {- 1, 0, 1}. \<exists>iy im idy y2 m2 d2.
        from_gregorian c (Y + k) 6 15 = Some (iy, im, idy) \<and>
        to_gregorian c iy 10 2 = Some (y2, m2, d2) \<and>
        d = \<lparr>year = Y, month = m2, day = d2\<rparr>"
  using emitsD [OF emits_eid_Indonesia assms(1), of UNIV d "''Eid al-Fitr''"] assms(2)
  by (simp add: second_day_def)

lemma Indonesia_2019_eid:
  "Indonesia_populate reference 2019 (HolidayBase_init True) \<noteq> None"
  "(\<lparr>year = 2019, month = 6, day = 6\<rparr>, ''Eid al-Fitr'')
     \<in> set (recorded (HolidayBase_init True)
              (the (Indonesia_populate reference 2019 (HolidayBase_init True))))"
  "from_gregorian reference (2019 + 0) 6 15 = Some (1440, 10, 11)"
  "to_gregorian reference 1440 10 1 = Some (2019, 6, 5)"
  "to_gregorian reference 1440 10 2 = Some (2019, 6, 6)"
  by code_simp+

theorem Indonesia_eid_al_fitr_second_day_only_witness:
  "Indonesia_populate reference 2019 (HolidayBase_init True) \<noteq> None \<and>
   (\<lparr>year = 2019, month = 6, day = 6\<rparr>, ''Eid al-Fitr'')
     \<in> set (recorded (HolidayBase_init True)
              (the (Indonesia_populate reference 2019 (HolidayBase_init True)))) \<and>
   to_gregorian reference 1440 10 1 = Some (2019, 6, 5) \<and>
   (\<exists>k \<in> {- 1, 0, 1}. \<exists>iy im idy y2 m2 d2.
        from_gregorian reference (2019 + k) 6 15 = Some (iy, im, idy) \<and>
        to_gregorian reference iy 10 2 = Some (y2, m2, d2) \<and>
        \<lparr>year = 2019, month = 6, day = 6\<rparr> = \<lparr>year = 2019, month = m2, day = d2\<rparr>)"
proof -
  obtain s' where s': "Indonesia_populate reference 2019 (HolidayBase_init True) = Some s'"
    using Indonesia_2019_eid(1) by blast
  have m: "(\<lparr>year = 2019, month = 6, day = 6\<rparr>, ''Eid al-Fitr'')
      \<in> set (recorded (HolidayBase_init True) s')"
    using Indonesia_2019_eid(2) s' by simp
  from Indonesia_eid_al_fitr_second_day_only [OF s' m] m s' Indonesia_2019_eid(4)
  show ?thesis by simp
qed

text \<open>
  Claim C6 fails on Indonesia for the same reason.  For 2019 the tabular Hijri
  calendar puts 1 and 2 Shawwal 1440 on June 5 and June 6.  India's populate assigns
  Eid al-Fitr to both dates; Indonesia's assigns June 6 twice and leaves June 5
  without an entry.
\<close>

theorem eid_al_fitr_2019:
  "tabular_to_gregorian 1440 10 1 = Some (2019, 6, 5) \<and>
   tabular_to_gregorian 1440 10 2 = Some (2019, 6, 6) \<and>
   map_option (\<lambda>s'. filter (\<lambda>(d, n). n = ''Eid al-Fitr'') (assigned s'))
       (India_populate reference 2019 (HolidayBase_init True))
     = Some [(\<lparr>year = 2019, month = 6, day = 5\<rparr>, ''Eid al-Fitr''),
             (\<lparr>year = 2019, month = 6, day = 6\<rparr>, ''Eid al-Fitr'')] \<and>
   map_option (\<lambda>s'. filter (\<lambda>(d, n). n = ''Eid al-Fitr'') (assigned s'))
       (Indonesia_populate reference 2019 (HolidayBase_init True))
     = Some [(\<lparr>year = 2019, month = 6, day = 6\<rparr>, ''Eid al-Fitr''),
             (\<lparr>year = 2019, month = 6, day = 6\<rparr>, ''Eid al-Fitr'')] \<and>
   map_option (\<lambda>s'. items s' \<lparr>year = 2019, month = 6, day = 5\<rparr>)
       (Indonesia_populate reference 2019 (HolidayBase_init True))
     = Some None"
  by code_simp

end
